theory Spec2Isabelle
  imports Main "HOL-Library.AList"
begin

section \<open>Strings and paths\<close>

text \<open>
  Python \<open>str\<close> values are modelled as \<^typ>\<open>string\<close>. \<open>str.lower()\<close> maps the
  ASCII capitals to their small letters and leaves every other character as it is.
\<close>

definition lower_char :: "char \<Rightarrow> char" where
  "lower_char c =
     (let n = (of_char c :: nat) in if 65 \<le> n \<and> n \<le> 90 then char_of (n + 32) else c)"

definition lower :: "string \<Rightarrow> string" where
  "lower s = map lower_char s"

text \<open>\<open>s.endswith(suffix)\<close>.\<close>

definition endswith :: "string \<Rightarrow> string \<Rightarrow> bool" where
  "endswith s sfx = (length sfx \<le> length s \<and> drop (length s - length sfx) s = sfx)"

text \<open>
  \<open>os.path.join(a, b)\<close> for a relative second component: a separator is inserted
  unless the first component is empty or already ends with one.
\<close>

definition path_join :: "string \<Rightarrow> string \<Rightarrow> string" where
  "path_join a b = (if a = [] \<or> last a = CHR ''/'' then a @ b else a @ ''/'' @ b)"

text \<open>\<open>str(n)\<close> for a non-negative integer, as the f-strings of the handler print it.\<close>

fun str_nat :: "nat \<Rightarrow> string" where
  "str_nat n =
     (if n < 10 then [char_of (48 + n)]
      else str_nat (n div 10) @ [char_of (48 + n mod 10)])"

section \<open>Values exchanged with the libraries\<close>

type_synonym bytes = "nat list"

text \<open>
  What \<open>json.loads\<close> returns. A float is carried as its literal: no claim computes
  with it.
\<close>

datatype json =
    JNull
  | JBool bool
  | JInt int
  | JFloat string
  | JStr string
  | JList "json list"
  | JDict "(string \<times> json) list"

text \<open>
  Exceptions, each with the text that \<open>str(e)\<close> gives. The handler names two classes in
  its \<open>except\<close> clauses, \<open>PyPDF2.errors.PdfReadError\<close> and \<open>json.JSONDecodeError\<close>; every
  other \<open>Exception\<close> (\<open>ValueError\<close>, \<open>RecursionError\<close>, \<open>OSError\<close>, ...) is an
  \<open>OtherException\<close>.
\<close>

datatype exn = PdfReadError string | JSONDecodeError string | OtherException string

fun str_exn :: "exn \<Rightarrow> string" where
  "str_exn (PdfReadError m) = m"
| "str_exn (JSONDecodeError m) = m"
| "str_exn (OtherException m) = m"

text \<open>\<open>isinstance(e, PdfReadError)\<close> and \<open>isinstance(e, json.JSONDecodeError)\<close>.\<close>

fun is_PdfReadError :: "exn \<Rightarrow> bool" where
  "is_PdfReadError (PdfReadError _) = True"
| "is_PdfReadError _ = False"

fun is_JSONDecodeError :: "exn \<Rightarrow> bool" where
  "is_JSONDecodeError (JSONDecodeError _) = True"
| "is_JSONDecodeError _ = False"

text \<open>A form value is a \<open>str\<close> or an \<open>UploadFile\<close>.\<close>

datatype form_value = FormStr string | FormUpload

text \<open>
  The request: \<open>rfil.filename\<close> (a \<open>str\<close>: a part without a file name is not an
  \<open>UploadFile\<close>), the bytes \<open>await rfil.read()\<close> returns, and \<open>form.items()\<close>, one pair
  for each field name.
\<close>

record submission =
  rfil_filename :: string
  rfil_contents :: bytes
  form_items :: "(string \<times> form_value) list"

text \<open>
  A \<open>PyPDF2.PdfReader\<close>: its \<open>pages\<close>, each with what \<open>extract_text()\<close> does on it.
\<close>

datatype pdf_page = PdfPage (extract_text: "exn + string")

datatype pdf_reader = Reader (reader_pages: "pdf_page list")

text \<open>The file system: the regular files with their contents, and the directories.\<close>

record filesystem =
  files :: "string \<rightharpoonup> bytes"
  dirs :: "string set"

datatype os_call = Makedirs string | OpenWb string | WriteBytes string | Remove string

datatype log_entry = LogInfo string | LogError string | LogTraceback exn

text \<open>The \<open>response_data\<close> dictionary of the success path, key by key.\<close>

record 'r response_data =
  status :: string
  message :: string
  filename :: string
  file_id :: string
  pages :: nat
  process_results :: 'r
  additional_data :: "(string \<times> json) list option"
  processing_time :: string

text \<open>
  The body of an error response is \<open>{"status": "error", "message": m}\<close>. The handler
  raises \<open>HTTPException\<close>, returns a \<open>JSONResponse\<close> (status 200 unless given), or is left
  by an exception that none of its \<open>except\<close> clauses catches: the framework then answers
  500 Internal Server Error.
\<close>

datatype 'r content = ErrorContent string | SuccessContent "'r response_data"

datatype 'r response =
    HTTPException nat string
  | JSONResponse nat "'r content"
  | Uncaught exn

fun status_code :: "'r response \<Rightarrow> nat" where
  "status_code (HTTPException c _) = c"
| "status_code (JSONResponse c _) = c"
| "status_code (Uncaught _) = 500"

text \<open>
  What the request finds around it: the working directory, the identifier
  \<open>str(uuid.uuid4())\<close>, the elapsed time as \<open>f"{processing_time:.2f}"\<close> prints it,
  \<open>json.loads\<close> (which returns, raises \<open>JSONDecodeError\<close> on a text that is not JSON, or
  raises another exception: \<open>ValueError\<close> on an integer literal beyond the digit limit,
  \<open>RecursionError\<close> on nesting beyond the recursion limit), \<open>PyPDF2.PdfReader\<close> on the
  uploaded bytes (the structural parse of lines 130 to 133, up to the list of pages),
  the operating-system calls that fail (with the text of their
  \<open>OSError\<close>), \<open>process_pdf_end_to_end\<close> (of \<open>src/functions/rfil_utils.py\<close>, taken as
  it comes: it may return, raise and change the file system), and the response bodies
  that \<open>JSONResponse\<close> cannot render (with the text of the \<open>TypeError\<close> or
  \<open>ValueError\<close> of \<open>json.dumps\<close>).
\<close>

record 'r env =
  cwd :: string
  uuid4 :: string
  elapsed :: string
  json_loads :: "string \<Rightarrow> exn + json"
  PdfReader :: "bytes \<Rightarrow> exn + pdf_reader"
  os_fault :: "os_call \<Rightarrow> string option"
  process_pdf_end_to_end ::
    "string \<Rightarrow> string \<Rightarrow> bool \<Rightarrow> filesystem \<Rightarrow> (exn + 'r) \<times> filesystem"
  render_error :: "'r response_data \<Rightarrow> string option"

text \<open>What a request changes: the file system and the log.\<close>

record state =
  fs :: filesystem
  log :: "log_entry list"

definition logger_info :: "string \<Rightarrow> state \<Rightarrow> state" where
  "logger_info m st = st\<lparr>log := log st @ [LogInfo m]\<rparr>"

definition logger_error :: "string \<Rightarrow> state \<Rightarrow> state" where
  "logger_error m st = st\<lparr>log := log st @ [LogError m]\<rparr>"

definition logger_traceback :: "exn \<Rightarrow> state \<Rightarrow> state" where
  "logger_traceback e st = st\<lparr>log := log st @ [LogTraceback e]\<rparr>"

section \<open>Operating-system calls\<close>

text \<open>\<open>os.makedirs(d, exist_ok=True)\<close>.\<close>

definition os_makedirs ::
  "(os_call \<Rightarrow> string option) \<Rightarrow> string \<Rightarrow> filesystem \<Rightarrow> exn + filesystem" where
  "os_makedirs fault d f =
     (case fault (Makedirs d) of
        Some m \<Rightarrow> Inl (OtherException m)
      | None \<Rightarrow> Inr (f\<lparr>dirs := insert d (dirs f)\<rparr>))"

text \<open>\<open>open(p, "wb")\<close> creates the file, or empties it.\<close>

definition open_wb ::
  "(os_call \<Rightarrow> string option) \<Rightarrow> string \<Rightarrow> filesystem \<Rightarrow> exn + filesystem" where
  "open_wb fault p f =
     (case fault (OpenWb p) of
        Some m \<Rightarrow> Inl (OtherException m)
      | None \<Rightarrow> Inr (f\<lparr>files := (files f)(p \<mapsto> [])\<rparr>))"

definition file_write ::
  "(os_call \<Rightarrow> string option) \<Rightarrow> string \<Rightarrow> bytes \<Rightarrow> filesystem \<Rightarrow> exn + filesystem" where
  "file_write fault p bs f =
     (case fault (WriteBytes p) of
        Some m \<Rightarrow> Inl (OtherException m)
      | None \<Rightarrow> Inr (f\<lparr>files := (files f)(p \<mapsto> bs)\<rparr>))"

text \<open>\<open>os.remove(p)\<close> raises \<open>FileNotFoundError\<close> when there is no such file.\<close>

definition os_remove ::
  "(os_call \<Rightarrow> string option) \<Rightarrow> string \<Rightarrow> filesystem \<Rightarrow> exn + filesystem" where
  "os_remove fault p f =
     (case fault (Remove p) of
        Some m \<Rightarrow> Inl (OtherException m)
      | None \<Rightarrow>
          (if files f p = None
           then Inl (OtherException (''[Errno 2] No such file or directory: '' @ p))
           else Inr (f\<lparr>files := (files f)(p := None)\<rparr>)))"

section \<open>The handler \<open>process_rfil_workflow\<close> of \<open>app.py\<close>\<close>

text \<open>
  Lines 106 to 116: the loop over \<open>form.items()\<close> that fills \<open>additional_data\<close>. The
  \<open>except\<close> clause of line 115 catches \<open>json.JSONDecodeError\<close> only, and the loop is
  inside no other \<open>try\<close>: any other exception of \<open>json.loads\<close> ends the loop and leaves
  the handler.
\<close>

fun collect_additional_data ::
  "(string \<Rightarrow> exn + json) \<Rightarrow> (string \<times> form_value) list \<Rightarrow> (string \<times> json) list
     \<Rightarrow> exn + (string \<times> json) list" where
  "collect_additional_data loads [] acc = Inr acc"
| "collect_additional_data loads ((field_name, field_value) # rest) acc =
     (if field_name = ''rfil'' \<or> field_value = FormUpload
      then collect_additional_data loads rest acc
      else (case field_value of
              FormStr s \<Rightarrow>
                (case loads s of
                   Inr parsed_value \<Rightarrow>
                     collect_additional_data loads rest (AList.update field_name parsed_value acc)
                 | Inl e \<Rightarrow>
                     if is_JSONDecodeError e
                     then collect_additional_data loads rest
                            (AList.update field_name (JStr s) acc)
                     else Inl e)
            | FormUpload \<Rightarrow> collect_additional_data loads rest acc))"

text \<open>
  Lines 196 to 210: the two \<open>except\<close> clauses. Everything from \<open>PdfReader\<close> to the
  final \<open>return\<close> runs inside both, so every exception raised there ends here.
\<close>

definition except_handler :: "exn \<Rightarrow> state \<Rightarrow> 'r response \<times> state" where
  "except_handler e st =
     (if is_PdfReadError e
      then (JSONResponse 400 (ErrorContent ''The file is not a valid PDF''),
            logger_error (''Invalid PDF format: '' @ str_exn e) st)
      else (JSONResponse 500 (ErrorContent (''An error occurred: '' @ str_exn e)),
            logger_traceback e
              (logger_error (''Error during RFIL processing: '' @ str_exn e) st)))"

text \<open>Lines 184 to 194: the time, the removal of the temporary file, the response.\<close>

definition remove_and_return ::
  "'r env \<Rightarrow> string \<Rightarrow> 'r response_data \<Rightarrow> state \<Rightarrow> 'r response \<times> state" where
  "remove_and_return env temp_file_path response_data st0 =
     (let st1 = logger_info (''Processing completed in '' @ elapsed env @ '' seconds'') st0
      in case os_remove (os_fault env) temp_file_path (fs st1) of
           Inl e \<Rightarrow> except_handler e st1
         | Inr f \<Rightarrow>
             (let st2 = logger_info (''Removed temp file: '' @ temp_file_path) (st1\<lparr>fs := f\<rparr>)
              in case render_error env response_data of
                   Some m \<Rightarrow> except_handler (OtherException m) st2
                 | None \<Rightarrow> (JSONResponse 200 (SuccessContent response_data), st2)))"

text \<open>Lines 162 to 188: the extraction call and \<open>response_data\<close>.\<close>

definition extract_and_respond ::
  "'r env \<Rightarrow> submission \<Rightarrow> (string \<times> json) list \<Rightarrow> pdf_reader \<Rightarrow> string \<Rightarrow> string
     \<Rightarrow> state \<Rightarrow> 'r response \<times> state" where
  "extract_and_respond env sub additional pdf_reader fid temp_file_path st0 =
     (let st1 = logger_info ''Starting PDF processing with PyMuPDF and Tesseract'' st0
      in case process_pdf_end_to_end env temp_file_path ''bul+eng'' True (fs st1) of
           (Inl e, f) \<Rightarrow> except_handler e (st1\<lparr>fs := f\<rparr>)
         | (Inr results, f) \<Rightarrow>
             remove_and_return env temp_file_path
               \<lparr>status = ''success'',
                message = ''PDF file has been processed successfully'',
                filename = rfil_filename sub,
                file_id = fid,
                pages = length (reader_pages pdf_reader),
                process_results = results,
                additional_data = (if additional \<noteq> [] then Some additional else None),
                processing_time = elapsed env @ '' seconds''\<rparr>
               (st1\<lparr>fs := f\<rparr>))"

text \<open>Lines 144 to 160: the identifier, the directory and the temporary file.\<close>

definition store_and_process ::
  "'r env \<Rightarrow> submission \<Rightarrow> (string \<times> json) list \<Rightarrow> pdf_reader \<Rightarrow> state
     \<Rightarrow> 'r response \<times> state" where
  "store_and_process env sub additional pdf_reader st0 =
     (let fid = uuid4 env;
          temp_dir = path_join (cwd env) ''temp_files''
      in case os_makedirs (os_fault env) temp_dir (fs st0) of
           Inl e \<Rightarrow> except_handler e st0
         | Inr f1 \<Rightarrow>
             (let temp_file_path = path_join temp_dir (fid @ ''.pdf'')
              in case open_wb (os_fault env) temp_file_path f1 of
                   Inl e \<Rightarrow> except_handler e (st0\<lparr>fs := f1\<rparr>)
                 | Inr f2 \<Rightarrow>
                     (case file_write (os_fault env) temp_file_path (rfil_contents sub) f2 of
                        Inl e \<Rightarrow> except_handler e (st0\<lparr>fs := f2\<rparr>)
                      | Inr f3 \<Rightarrow>
                          extract_and_respond env sub additional pdf_reader fid temp_file_path
                            (logger_info (''PDF saved to temporary file: '' @ temp_file_path)
                               (st0\<lparr>fs := f3\<rparr>)))))"

text \<open>Lines 123 to 142: the structural parse, the page count, the first-page probe.\<close>

definition validate_and_process ::
  "'r env \<Rightarrow> submission \<Rightarrow> (string \<times> json) list \<Rightarrow> state \<Rightarrow> 'r response \<times> state" where
  "validate_and_process env sub additional st0 =
     (case PdfReader env (rfil_contents sub) of
        Inl e \<Rightarrow> except_handler e st0
      | Inr pdf_reader \<Rightarrow>
          if length (reader_pages pdf_reader) < 1
          then (JSONResponse 400 (ErrorContent ''The PDF file is empty or corrupt''),
                logger_error ''Empty or corrupt PDF submitted'' st0)
          else (case extract_text (reader_pages pdf_reader ! 0) of
                  Inl e \<Rightarrow> except_handler e st0
                | Inr _ \<Rightarrow>
                    store_and_process env sub additional pdf_reader
                      (logger_info
                         (''PDF validated successfully: '' @ rfil_filename sub @ '', ''
                            @ str_nat (length (reader_pages pdf_reader)) @ '' pages'')
                         st0)))"

text \<open>
  Lines 99 to 121, and the whole handler. The loop over the form fields runs first, before
  the check of the file name and outside the \<open>try\<close> of line 123.
\<close>

definition process_rfil_workflow ::
  "'r env \<Rightarrow> submission \<Rightarrow> filesystem \<Rightarrow> 'r response \<times> state" where
  "process_rfil_workflow env sub fs0 =
     (let st0 = logger_info ''RFIL workflow endpoint called'' \<lparr>fs = fs0, log = []\<rparr>
      in case collect_additional_data (json_loads env) (form_items sub) [] of
           Inl e \<Rightarrow> (Uncaught e, st0)
         | Inr additional \<Rightarrow>
             if \<not> endswith (lower (rfil_filename sub)) ''.pdf''
             then (HTTPException 400 ''Only PDF files are accepted'',
                   logger_error ''Non-PDF file submitted'' st0)
             else validate_and_process env sub additional st0)"

section \<open>The extraction pipeline\<close>

text \<open>
  Modelled from the spec: \<open>process_pdf_end_to_end\<close>, of \<open>src/functions/rfil_utils.py\<close>,
  which is not among the sources. Section 4.3 of the specification: for each page in
  order, native text extraction; where the text is empty or shorter than a usability
  threshold, the page is rendered and given to the OCR engine with the language hint; a
  page whose OCR fails is recorded with empty text and the method tag \<open>failed\<close>; the
  result is a failed one when every page fails; the concatenated text is saved to a
  sidecar location when asked, and a failure to save is only noted.
\<close>

record doc_page =
  native_text :: string
  ocr :: "string \<Rightarrow> exn + string"

record page_result =
  page_index :: nat
  method_tag :: string
  page_text :: string
  language_hint :: "string option"

record processing_result =
  page_results :: "page_result list"
  result_status :: string
  diagnostic :: string

text \<open>
  The parameters the specification leaves open: the threshold, how the stored bytes
  open as a document, the sidecar location of a document, and the sidecar writes that
  fail.
\<close>

record pipeline =
  min_chars :: nat
  open_document :: "bytes \<Rightarrow> exn + doc_page list"
  sidecar :: "string \<Rightarrow> string"
  sidecar_fault :: "string \<Rightarrow> string option"

definition needs_ocr :: "nat \<Rightarrow> string \<Rightarrow> bool" where
  "needs_ocr threshold txt = (txt = [] \<or> length txt < threshold)"

definition extract_page :: "nat \<Rightarrow> string \<Rightarrow> nat \<Rightarrow> doc_page \<Rightarrow> page_result" where
  "extract_page threshold lang i p =
     (if needs_ocr threshold (native_text p)
      then (case ocr p lang of
              Inr t \<Rightarrow>
                \<lparr>page_index = i, method_tag = ''ocr'', page_text = t,
                 language_hint = Some lang\<rparr>
            | Inl e \<Rightarrow>
                \<lparr>page_index = i, method_tag = ''failed'', page_text = [],
                 language_hint = Some lang\<rparr>)
      else \<lparr>page_index = i, method_tag = ''native'', page_text = native_text p,
            language_hint = None\<rparr>)"

fun extract_pages :: "nat \<Rightarrow> string \<Rightarrow> nat \<Rightarrow> doc_page list \<Rightarrow> page_result list" where
  "extract_pages threshold lang i [] = []"
| "extract_pages threshold lang i (p # ps) =
     extract_page threshold lang i p # extract_pages threshold lang (Suc i) ps"

definition overall_status :: "page_result list \<Rightarrow> string" where
  "overall_status rs =
     (if rs \<noteq> [] \<and> list_all (\<lambda>r. method_tag r = ''failed'') rs then ''failed'' else ''success'')"

definition process_pdf_end_to_end_spec ::
  "pipeline \<Rightarrow> string \<Rightarrow> string \<Rightarrow> bool \<Rightarrow> filesystem
     \<Rightarrow> (exn + processing_result) \<times> filesystem" where
  "process_pdf_end_to_end_spec pl location lang save_text f =
     (case files f location of
        None \<Rightarrow> (Inl (OtherException (''no such file: '' @ location)), f)
      | Some bs \<Rightarrow>
          (case open_document pl bs of
             Inl e \<Rightarrow> (Inl e, f)
           | Inr ps \<Rightarrow>
               (let rs = extract_pages (min_chars pl) lang 1 ps;
                    res = \<lparr>page_results = rs, result_status = overall_status rs,
                           diagnostic = []\<rparr>
                in if save_text
                   then (case sidecar_fault pl (sidecar pl location) of
                           Some m \<Rightarrow> (Inr (res\<lparr>diagnostic := ''text not saved: '' @ m\<rparr>), f)
                         | None \<Rightarrow>
                             (Inr res,
                              f\<lparr>files := (files f)(sidecar pl location \<mapsto>
                                   map of_char (concat (map page_text rs)))\<rparr>))
                   else (Inr res, f))))"

section \<open>Derived notions used in the statements\<close>

text \<open>The location of the temporary file of a request.\<close>

definition temp_dir_of :: "'r env \<Rightarrow> string" where
  "temp_dir_of env = path_join (cwd env) ''temp_files''"

definition temp_file_path_of :: "'r env \<Rightarrow> string" where
  "temp_file_path_of env = path_join (temp_dir_of env) (uuid4 env @ ''.pdf'')"

text \<open>The four checks of lines 118 to 141 all pass.\<close>

definition validation_gate :: "'r env \<Rightarrow> submission \<Rightarrow> bool" where
  "validation_gate env sub =
     (endswith (lower (rfil_filename sub)) ''.pdf'' \<and>
      (case PdfReader env (rfil_contents sub) of
         Inl _ \<Rightarrow> False
       | Inr rd \<Rightarrow>
           \<not> length (reader_pages rd) < 1 \<and>
           (case extract_text (reader_pages rd ! 0) of Inl _ \<Rightarrow> False | Inr _ \<Rightarrow> True)))"

text \<open>No operating-system call of lines 149 to 158 fails.\<close>

definition no_store_fault :: "'r env \<Rightarrow> bool" where
  "no_store_fault env =
     (os_fault env (Makedirs (temp_dir_of env)) = None \<and>
      os_fault env (OpenWb (temp_file_path_of env)) = None \<and>
      os_fault env (WriteBytes (temp_file_path_of env)) = None)"

text \<open>The file system once the directory and the temporary file are written.\<close>

definition stored_fs :: "'r env \<Rightarrow> submission \<Rightarrow> filesystem \<Rightarrow> filesystem" where
  "stored_fs env sub fs0 =
     fs0\<lparr>dirs := insert (temp_dir_of env) (dirs fs0),
         files := (files fs0)(temp_file_path_of env \<mapsto> rfil_contents sub)\<rparr>"

text \<open>The \<open>response_data\<close> of a request whose extraction returned \<open>results\<close>.\<close>

definition response_data_of ::
  "'r env \<Rightarrow> submission \<Rightarrow> pdf_reader \<Rightarrow> (string \<times> json) list \<Rightarrow> 'r \<Rightarrow> 'r response_data" where
  "response_data_of env sub rd ad results =
     \<lparr>status = ''success'',
      message = ''PDF file has been processed successfully'',
      filename = rfil_filename sub,
      file_id = uuid4 env,
      pages = length (reader_pages rd),
      process_results = results,
      additional_data = (if ad \<noteq> [] then Some ad else None),
      processing_time = elapsed env @ '' seconds''\<rparr>"

text \<open>A response that is not the success response.\<close>

fun is_error :: "'r response \<Rightarrow> bool" where
  "is_error (HTTPException _ _) = True"
| "is_error (JSONResponse _ (ErrorContent _)) = True"
| "is_error (JSONResponse _ (SuccessContent _)) = False"
| "is_error (Uncaught _) = True"

section \<open>Example inputs\<close>

text \<open>
  A three-page document whose second page has no text layer, the reader and the
  pipeline on the uploads used below, and a fragment of \<open>json.loads\<close>: a text that
  opens more than a thousand arrays exhausts the recursion limit of the decoder.
\<close>

definition example_pages :: "doc_page list" where
  "example_pages =
     [\<lparr>native_text = ''Invoice 2024'', ocr = (\<lambda>lang. Inr ''Invoice 2O24'')\<rparr>,
      \<lparr>native_text = [], ocr = (\<lambda>lang. if lang = ''bul+eng'' then Inr ''scanned'' else Inr ''???'')\<rparr>,
      \<lparr>native_text = ''Total: 12'', ocr = (\<lambda>lang. Inl (OtherException ''tesseract failed''))\<rparr>]"

definition example_PdfReader :: "bytes \<Rightarrow> exn + pdf_reader" where
  "example_PdfReader bs =
     (if bs = [] then Inl (PdfReadError ''Cannot read an empty file'')
      else if bs = [37, 80, 68, 70] then
        Inr (Reader [PdfPage (Inr ''Invoice 2024''), PdfPage (Inr []), PdfPage (Inr ''Total: 12'')])
      else if bs = [37, 80, 68, 70, 48] then Inr (Reader [])
      else if bs = [37, 80, 68, 70, 49] then
        Inr (Reader [PdfPage (Inl (OtherException ''unsupported filter /JBIG2Decode''))])
      else if bs = [37, 80, 68, 70, 50] then
        Inr (Reader [PdfPage (Inl (PdfReadError ''Invalid content stream''))])
      else if bs = [37, 80, 68, 70, 51] then Inl (OtherException ''maximum recursion depth exceeded'')
      else Inl (PdfReadError ''EOF marker not found''))"

definition example_loads :: "string \<Rightarrow> exn + json" where
  "example_loads s =
     (if 1000 < length (takeWhile (\<lambda>c. c = CHR ''['') s)
      then Inl (OtherException ''maximum recursion depth exceeded while decoding a JSON array'')
      else if s = ''42'' then Inr (JInt 42)
      else if s = ''[1, 2]'' then Inr (JList [JInt 1, JInt 2])
      else if s = ''null'' then Inr JNull
      else Inl (JSONDecodeError ''Expecting value: line 1 column 1 (char 0)''))"

definition example_pipeline :: pipeline where
  "example_pipeline =
     \<lparr>min_chars = 1,
      open_document = (\<lambda>bs. if bs = [37, 80, 68, 70] then Inr example_pages
                            else Inl (OtherException ''cannot open document'')),
      sidecar = (\<lambda>p. p @ ''.txt''),
      sidecar_fault = (\<lambda>p. None)\<rparr>"

text \<open>
  The surroundings of the examples, for a given extraction function: no call of the
  operating system fails and every response body can be rendered.
\<close>

definition example_env_with ::
  "(string \<Rightarrow> string \<Rightarrow> bool \<Rightarrow> filesystem \<Rightarrow> (exn + 'r) \<times> filesystem) \<Rightarrow> 'r env" where
  "example_env_with extraction =
     \<lparr>cwd = ''/app'', uuid4 = ''9f1c'', elapsed = ''0.42'',
      json_loads = example_loads, PdfReader = example_PdfReader,
      os_fault = (\<lambda>c. None),
      process_pdf_end_to_end = extraction,
      render_error = (\<lambda>d. None)\<rparr>"

definition example_env :: "processing_result env" where
  "example_env = example_env_with (process_pdf_end_to_end_spec example_pipeline)"

text \<open>
  An extraction that reports the arguments it is called with, and one that raises
  because the OCR engine is not installed.
\<close>

definition reporting_extraction ::
  "string \<Rightarrow> string \<Rightarrow> bool \<Rightarrow> filesystem
     \<Rightarrow> (exn + string \<times> string \<times> bool) \<times> filesystem" where
  "reporting_extraction location lang save_text f = (Inr (location, lang, save_text), f)"

definition failing_extraction ::
  "string \<Rightarrow> string \<Rightarrow> bool \<Rightarrow> filesystem \<Rightarrow> (exn + processing_result) \<times> filesystem" where
  "failing_extraction location lang save_text f =
     (Inl (OtherException ''tesseract is not installed or it is not in your PATH''), f)"

definition example_fs :: filesystem where
  "example_fs = \<lparr>files = Map.empty, dirs = {''/app''}\<rparr>"

text \<open>Surroundings in which the temporary file cannot be removed.\<close>

definition removal_denied_env :: "(string \<times> string \<times> bool) env" where
  "removal_denied_env =
     (example_env_with reporting_extraction)
       \<lparr>os_fault := (\<lambda>c. if c = Remove ''/app/temp_files/9f1c.pdf''
                          then Some ''[Errno 13] Permission denied'' else None)\<rparr>"

section \<open>Basic lemmas\<close>





section \<open>The handler, stage by stage\<close>

lemmas state_defs = logger_info_def logger_error_def logger_traceback_def

lemma except_handler_400:
  assumes "is_PdfReadError e"
  shows "except_handler e st =
     (JSONResponse 400 (ErrorContent ''The file is not a valid PDF''),
      \<lparr>fs = fs st, log = log st @ [LogError (''Invalid PDF format: '' @ str_exn e)]\<rparr>)"
  using assms by (cases st) (simp add: except_handler_def state_defs)

lemma except_handler_500:
  assumes "\<not> is_PdfReadError e"
  shows "except_handler e st =
     (JSONResponse 500 (ErrorContent (''An error occurred: '' @ str_exn e)),
      \<lparr>fs = fs st,
       log = log st @ [LogError (''Error during RFIL processing: '' @ str_exn e), LogTraceback e]\<rparr>)"
  using assms by (cases st) (simp add: except_handler_def state_defs)

lemma except_handler_fs: "fs (snd (except_handler e st)) = fs st"
  by (cases st) (simp add: except_handler_def state_defs)


lemma except_handler_fst:
  "fst (except_handler e st) =
     (if is_PdfReadError e
      then JSONResponse 400 (ErrorContent ''The file is not a valid PDF'')
      else JSONResponse 500 (ErrorContent (''An error occurred: '' @ str_exn e)))"
  by (simp add: except_handler_def)

lemma run_form_raises:
  assumes "collect_additional_data (json_loads env) (form_items sub) [] = Inl e"
  shows "process_rfil_workflow env sub disk =
     (Uncaught e, \<lparr>fs = disk, log = [LogInfo ''RFIL workflow endpoint called'']\<rparr>)"
  using assms by (simp add: process_rfil_workflow_def Let_def state_defs)

lemma run_ext:
  assumes "collect_additional_data (json_loads env) (form_items sub) [] = Inr ad"
    "\<not> endswith (lower (rfil_filename sub)) ''.pdf''"
  shows "process_rfil_workflow env sub disk =
     (HTTPException 400 ''Only PDF files are accepted'',
      \<lparr>fs = disk,
       log = [LogInfo ''RFIL workflow endpoint called'', LogError ''Non-PDF file submitted'']\<rparr>)"
  using assms by (simp add: process_rfil_workflow_def Let_def state_defs)

lemma run_parse:
  assumes "collect_additional_data (json_loads env) (form_items sub) [] = Inr ad"
    "endswith (lower (rfil_filename sub)) ''.pdf''" "PdfReader env (rfil_contents sub) = Inl e"
  shows "process_rfil_workflow env sub disk =
     except_handler e \<lparr>fs = disk, log = [LogInfo ''RFIL workflow endpoint called'']\<rparr>"
  using assms by (simp add: process_rfil_workflow_def validate_and_process_def Let_def state_defs)

lemma run_empty:
  assumes "collect_additional_data (json_loads env) (form_items sub) [] = Inr ad"
    "endswith (lower (rfil_filename sub)) ''.pdf''" "PdfReader env (rfil_contents sub) = Inr rd"
    "reader_pages rd = []"
  shows "process_rfil_workflow env sub disk =
     (JSONResponse 400 (ErrorContent ''The PDF file is empty or corrupt''),
      \<lparr>fs = disk,
       log = [LogInfo ''RFIL workflow endpoint called'',
              LogError ''Empty or corrupt PDF submitted'']\<rparr>)"
  using assms by (simp add: process_rfil_workflow_def validate_and_process_def Let_def state_defs)

lemma run_probe:
  assumes "collect_additional_data (json_loads env) (form_items sub) [] = Inr ad"
    "endswith (lower (rfil_filename sub)) ''.pdf''" "PdfReader env (rfil_contents sub) = Inr rd"
    "reader_pages rd \<noteq> []" "extract_text (reader_pages rd ! 0) = Inl e"
  shows "process_rfil_workflow env sub disk =
     except_handler e \<lparr>fs = disk, log = [LogInfo ''RFIL workflow endpoint called'']\<rparr>"
  using assms by (simp add: process_rfil_workflow_def validate_and_process_def Let_def state_defs)

lemma run_valid:
  assumes "collect_additional_data (json_loads env) (form_items sub) [] = Inr ad"
    "endswith (lower (rfil_filename sub)) ''.pdf''" "PdfReader env (rfil_contents sub) = Inr rd"
    "reader_pages rd \<noteq> []" "extract_text (reader_pages rd ! 0) = Inr t"
  shows "process_rfil_workflow env sub disk =
     store_and_process env sub ad rd
       \<lparr>fs = disk,
        log = [LogInfo ''RFIL workflow endpoint called'',
               LogInfo (''PDF validated successfully: '' @ rfil_filename sub @ '', ''
                        @ str_nat (length (reader_pages rd)) @ '' pages'')]\<rparr>"
  using assms by (simp add: process_rfil_workflow_def validate_and_process_def Let_def state_defs)

lemma validation_gate_cases:
  obtains (ext) "\<not> endswith (lower (rfil_filename sub)) ''.pdf''"
  | (parse) e where "endswith (lower (rfil_filename sub)) ''.pdf''" "PdfReader env (rfil_contents sub) = Inl e"
  | (empty) rd where "endswith (lower (rfil_filename sub)) ''.pdf''" "PdfReader env (rfil_contents sub) = Inr rd"
      "reader_pages rd = []"
  | (probe) rd e where "endswith (lower (rfil_filename sub)) ''.pdf''" "PdfReader env (rfil_contents sub) = Inr rd"
      "reader_pages rd \<noteq> []" "extract_text (reader_pages rd ! 0) = Inl e"
  | (valid) rd t where "endswith (lower (rfil_filename sub)) ''.pdf''" "PdfReader env (rfil_contents sub) = Inr rd"
      "reader_pages rd \<noteq> []" "extract_text (reader_pages rd ! 0) = Inr t" "validation_gate env sub"
proof (cases "endswith (lower (rfil_filename sub)) ''.pdf''")
  case False then show ?thesis by (rule ext)
next
  case True
  show ?thesis
  proof (cases "PdfReader env (rfil_contents sub)")
    case (Inl e) with True show ?thesis by (rule parse)
  next
    case (Inr rd)
    show ?thesis
    proof (cases "reader_pages rd = []")
      case True with \<open>endswith _ _\<close> Inr show ?thesis by (rule empty)
    next
      case False
      show ?thesis
      proof (cases "extract_text (reader_pages rd ! 0)")
        case (Inl e) with True Inr False show ?thesis by (rule probe)
      next
        case r: (Inr t)
        have "validation_gate env sub"
          using True Inr False r by (simp add: validation_gate_def)
        with True Inr False r show ?thesis by (rule valid)
      qed
    qed
  qed
qed

lemma validation_gateD:
  assumes "validation_gate env sub"
  obtains rd t where "endswith (lower (rfil_filename sub)) ''.pdf''"
    "PdfReader env (rfil_contents sub) = Inr rd" "reader_pages rd \<noteq> []"
    "extract_text (reader_pages rd ! 0) = Inr t"
  using assms
  by (cases rule: validation_gate_cases[where sub = sub and env = env])
     (simp_all add: validation_gate_def)

lemma store_makedirs_fault:
  assumes "os_fault env (Makedirs (temp_dir_of env)) = Some m"
  shows "store_and_process env sub ad rd st = except_handler (OtherException m) st"
  using assms
  by (simp add: store_and_process_def Let_def os_makedirs_def temp_dir_of_def)

lemma store_open_fault:
  assumes "os_fault env (Makedirs (temp_dir_of env)) = None"
    "os_fault env (OpenWb (temp_file_path_of env)) = Some m"
  shows "store_and_process env sub ad rd st =
     except_handler (OtherException m)
       \<lparr>fs = (fs st)\<lparr>dirs := insert (temp_dir_of env) (dirs (fs st))\<rparr>, log = log st\<rparr>"
  using assms
  by (cases st) (simp add: store_and_process_def Let_def os_makedirs_def open_wb_def
        temp_dir_of_def temp_file_path_of_def)

lemma store_write_fault:
  assumes "os_fault env (Makedirs (temp_dir_of env)) = None"
    "os_fault env (OpenWb (temp_file_path_of env)) = None"
    "os_fault env (WriteBytes (temp_file_path_of env)) = Some m"
  shows "store_and_process env sub ad rd st =
     except_handler (OtherException m)
       \<lparr>fs = (fs st)\<lparr>dirs := insert (temp_dir_of env) (dirs (fs st)),
                       files := (files (fs st))(temp_file_path_of env \<mapsto> [])\<rparr>,
        log = log st\<rparr>"
  using assms
  by (cases st) (simp add: store_and_process_def Let_def os_makedirs_def open_wb_def
        file_write_def temp_dir_of_def temp_file_path_of_def)

lemma store_ok:
  assumes "no_store_fault env"
  shows "store_and_process env sub ad rd st =
     extract_and_respond env sub ad rd (uuid4 env) (temp_file_path_of env)
       \<lparr>fs = stored_fs env sub (fs st),
        log = log st @ [LogInfo (''PDF saved to temporary file: '' @ temp_file_path_of env)]\<rparr>"
  using assms
  by (cases st) (simp add: store_and_process_def Let_def state_defs os_makedirs_def open_wb_def
        file_write_def temp_dir_of_def temp_file_path_of_def no_store_fault_def stored_fs_def)

lemma extract_raises:
  assumes "process_pdf_end_to_end env p ''bul+eng'' True (fs st) = (Inl e, f)"
  shows "extract_and_respond env sub ad rd fid p st =
     except_handler e
       \<lparr>fs = f,
        log = log st @ [LogInfo ''Starting PDF processing with PyMuPDF and Tesseract'']\<rparr>"
  using assms by (cases st) (simp add: extract_and_respond_def Let_def state_defs)

lemma extract_returns:
  assumes "process_pdf_end_to_end env p ''bul+eng'' True (fs st) = (Inr res, f)"
  shows "extract_and_respond env sub ad rd (uuid4 env) p st =
     remove_and_return env p (response_data_of env sub rd ad res)
       \<lparr>fs = f,
        log = log st @ [LogInfo ''Starting PDF processing with PyMuPDF and Tesseract'']\<rparr>"
  using assms
  by (cases st) (simp add: extract_and_respond_def Let_def state_defs response_data_of_def)

lemma remove_fails:
  assumes "os_remove (os_fault env) p (fs st) = Inl e"
  shows "remove_and_return env p d st =
     except_handler e
       \<lparr>fs = fs st,
        log = log st @ [LogInfo (''Processing completed in '' @ elapsed env @ '' seconds'')]\<rparr>"
  using assms by (cases st) (simp add: remove_and_return_def Let_def state_defs)

lemma remove_then_render_fails:
  assumes "os_remove (os_fault env) p (fs st) = Inr f" "render_error env d = Some m"
  shows "remove_and_return env p d st =
     except_handler (OtherException m)
       \<lparr>fs = f,
        log = log st @ [LogInfo (''Processing completed in '' @ elapsed env @ '' seconds''),
                        LogInfo (''Removed temp file: '' @ p)]\<rparr>"
  using assms by (cases st) (simp add: remove_and_return_def Let_def state_defs)

lemma remove_then_success:
  assumes "os_remove (os_fault env) p (fs st) = Inr f" "render_error env d = None"
  shows "remove_and_return env p d st =
     (JSONResponse 200 (SuccessContent d),
      \<lparr>fs = f,
       log = log st @ [LogInfo (''Processing completed in '' @ elapsed env @ '' seconds''),
                       LogInfo (''Removed temp file: '' @ p)]\<rparr>)"
  using assms by (cases st) (simp add: remove_and_return_def Let_def state_defs)

subsection \<open>The path through storage and extraction\<close>

lemma run_to_extraction:
  assumes "collect_additional_data (json_loads env) (form_items sub) [] = Inr ad"
    "validation_gate env sub" "no_store_fault env" "PdfReader env (rfil_contents sub) = Inr rd"
  shows "process_rfil_workflow env sub disk =
     extract_and_respond env sub ad rd (uuid4 env) (temp_file_path_of env)
       \<lparr>fs = stored_fs env sub disk,
        log = [LogInfo ''RFIL workflow endpoint called'',
               LogInfo (''PDF validated successfully: '' @ rfil_filename sub @ '', ''
                        @ str_nat (length (reader_pages rd)) @ '' pages''),
               LogInfo (''PDF saved to temporary file: '' @ temp_file_path_of env)]\<rparr>"
proof -
  from assms(2) obtain rd' t where v: "endswith (lower (rfil_filename sub)) ''.pdf''"
    "PdfReader env (rfil_contents sub) = Inr rd'" "reader_pages rd' \<noteq> []"
    "extract_text (reader_pages rd' ! 0) = Inr t"
    by (rule validation_gateD)
  with assms(4) have [simp]: "rd' = rd" by simp
  show ?thesis
    using v by (simp add: run_valid[OF assms(1)] store_ok[OF assms(3)])
qed

lemma run_extraction_raises:
  assumes "collect_additional_data (json_loads env) (form_items sub) [] = Inr ad"
    "validation_gate env sub" "no_store_fault env" "PdfReader env (rfil_contents sub) = Inr rd"
    "process_pdf_end_to_end env (temp_file_path_of env) ''bul+eng'' True
       (stored_fs env sub disk) = (Inl e, f)"
  shows "process_rfil_workflow env sub disk =
     except_handler e
       \<lparr>fs = f,
        log = [LogInfo ''RFIL workflow endpoint called'',
               LogInfo (''PDF validated successfully: '' @ rfil_filename sub @ '', ''
                        @ str_nat (length (reader_pages rd)) @ '' pages''),
               LogInfo (''PDF saved to temporary file: '' @ temp_file_path_of env),
               LogInfo ''Starting PDF processing with PyMuPDF and Tesseract'']\<rparr>"
proof -
  let ?st = "\<lparr>fs = stored_fs env sub disk,
        log = [LogInfo ''RFIL workflow endpoint called'',
               LogInfo (''PDF validated successfully: '' @ rfil_filename sub @ '', ''
                        @ str_nat (length (reader_pages rd)) @ '' pages''),
               LogInfo (''PDF saved to temporary file: '' @ temp_file_path_of env)]\<rparr>"
  have pr: "process_pdf_end_to_end env (temp_file_path_of env) ''bul+eng'' True (fs ?st) = (Inl e, f)"
    using assms(5) by simp
  show ?thesis
    unfolding run_to_extraction[OF assms(1-4)] extract_raises[OF pr] by simp
qed

lemma run_extraction_returns:
  assumes "collect_additional_data (json_loads env) (form_items sub) [] = Inr ad"
    "validation_gate env sub" "no_store_fault env" "PdfReader env (rfil_contents sub) = Inr rd"
    "process_pdf_end_to_end env (temp_file_path_of env) ''bul+eng'' True
       (stored_fs env sub disk) = (Inr res, f)"
  shows "process_rfil_workflow env sub disk =
     remove_and_return env (temp_file_path_of env) (response_data_of env sub rd ad res)
       \<lparr>fs = f,
        log = [LogInfo ''RFIL workflow endpoint called'',
               LogInfo (''PDF validated successfully: '' @ rfil_filename sub @ '', ''
                        @ str_nat (length (reader_pages rd)) @ '' pages''),
               LogInfo (''PDF saved to temporary file: '' @ temp_file_path_of env),
               LogInfo ''Starting PDF processing with PyMuPDF and Tesseract'']\<rparr>"
proof -
  let ?st = "\<lparr>fs = stored_fs env sub disk,
        log = [LogInfo ''RFIL workflow endpoint called'',
               LogInfo (''PDF validated successfully: '' @ rfil_filename sub @ '', ''
                        @ str_nat (length (reader_pages rd)) @ '' pages''),
               LogInfo (''PDF saved to temporary file: '' @ temp_file_path_of env)]\<rparr>"
  have pr: "process_pdf_end_to_end env (temp_file_path_of env) ''bul+eng'' True (fs ?st) = (Inr res, f)"
    using assms(5) by simp
  show ?thesis
    unfolding run_to_extraction[OF assms(1-4)] extract_returns[OF pr] by simp
qed

lemma run_removal_fails:
  assumes "collect_additional_data (json_loads env) (form_items sub) [] = Inr ad"
    "validation_gate env sub" "no_store_fault env" "PdfReader env (rfil_contents sub) = Inr rd"
    "process_pdf_end_to_end env (temp_file_path_of env) ''bul+eng'' True
       (stored_fs env sub disk) = (Inr res, f)"
    "os_remove (os_fault env) (temp_file_path_of env) f = Inl e"
  shows "process_rfil_workflow env sub disk =
     except_handler e
       \<lparr>fs = f,
        log = [LogInfo ''RFIL workflow endpoint called'',
               LogInfo (''PDF validated successfully: '' @ rfil_filename sub @ '', ''
                        @ str_nat (length (reader_pages rd)) @ '' pages''),
               LogInfo (''PDF saved to temporary file: '' @ temp_file_path_of env),
               LogInfo ''Starting PDF processing with PyMuPDF and Tesseract'',
               LogInfo (''Processing completed in '' @ elapsed env @ '' seconds'')]\<rparr>"
proof -
  let ?st = "\<lparr>fs = f,
        log = [LogInfo ''RFIL workflow endpoint called'',
               LogInfo (''PDF validated successfully: '' @ rfil_filename sub @ '', ''
                        @ str_nat (length (reader_pages rd)) @ '' pages''),
               LogInfo (''PDF saved to temporary file: '' @ temp_file_path_of env),
               LogInfo ''Starting PDF processing with PyMuPDF and Tesseract'']\<rparr>"
  have rm: "os_remove (os_fault env) (temp_file_path_of env) (fs ?st) = Inl e"
    using assms(6) by simp
  show ?thesis
    unfolding run_extraction_returns[OF assms(1-5)] remove_fails[OF rm] by simp
qed

lemma run_render_fails:
  assumes "collect_additional_data (json_loads env) (form_items sub) [] = Inr ad"
    "validation_gate env sub" "no_store_fault env" "PdfReader env (rfil_contents sub) = Inr rd"
    "process_pdf_end_to_end env (temp_file_path_of env) ''bul+eng'' True
       (stored_fs env sub disk) = (Inr res, f)"
    "os_remove (os_fault env) (temp_file_path_of env) f = Inr f'"
    "render_error env (response_data_of env sub rd ad res) = Some m"
  shows "process_rfil_workflow env sub disk =
     except_handler (OtherException m)
       \<lparr>fs = f',
        log = [LogInfo ''RFIL workflow endpoint called'',
               LogInfo (''PDF validated successfully: '' @ rfil_filename sub @ '', ''
                        @ str_nat (length (reader_pages rd)) @ '' pages''),
               LogInfo (''PDF saved to temporary file: '' @ temp_file_path_of env),
               LogInfo ''Starting PDF processing with PyMuPDF and Tesseract'',
               LogInfo (''Processing completed in '' @ elapsed env @ '' seconds''),
               LogInfo (''Removed temp file: '' @ temp_file_path_of env)]\<rparr>"
proof -
  let ?st = "\<lparr>fs = f,
        log = [LogInfo ''RFIL workflow endpoint called'',
               LogInfo (''PDF validated successfully: '' @ rfil_filename sub @ '', ''
                        @ str_nat (length (reader_pages rd)) @ '' pages''),
               LogInfo (''PDF saved to temporary file: '' @ temp_file_path_of env),
               LogInfo ''Starting PDF processing with PyMuPDF and Tesseract'']\<rparr>"
  have rm: "os_remove (os_fault env) (temp_file_path_of env) (fs ?st) = Inr f'"
    using assms(6) by simp
  show ?thesis
    unfolding run_extraction_returns[OF assms(1-5)] remove_then_render_fails[OF rm assms(7)]
    by simp
qed

lemma run_success:
  assumes "collect_additional_data (json_loads env) (form_items sub) [] = Inr ad"
    "validation_gate env sub" "no_store_fault env" "PdfReader env (rfil_contents sub) = Inr rd"
    "process_pdf_end_to_end env (temp_file_path_of env) ''bul+eng'' True
       (stored_fs env sub disk) = (Inr res, f)"
    "os_remove (os_fault env) (temp_file_path_of env) f = Inr f'"
    "render_error env (response_data_of env sub rd ad res) = None"
  shows "process_rfil_workflow env sub disk =
     (JSONResponse 200 (SuccessContent (response_data_of env sub rd ad res)),
      \<lparr>fs = f',
       log = [LogInfo ''RFIL workflow endpoint called'',
              LogInfo (''PDF validated successfully: '' @ rfil_filename sub @ '', ''
                       @ str_nat (length (reader_pages rd)) @ '' pages''),
              LogInfo (''PDF saved to temporary file: '' @ temp_file_path_of env),
              LogInfo ''Starting PDF processing with PyMuPDF and Tesseract'',
              LogInfo (''Processing completed in '' @ elapsed env @ '' seconds''),
              LogInfo (''Removed temp file: '' @ temp_file_path_of env)]\<rparr>)"
proof -
  let ?st = "\<lparr>fs = f,
        log = [LogInfo ''RFIL workflow endpoint called'',
               LogInfo (''PDF validated successfully: '' @ rfil_filename sub @ '', ''
                        @ str_nat (length (reader_pages rd)) @ '' pages''),
               LogInfo (''PDF saved to temporary file: '' @ temp_file_path_of env),
               LogInfo ''Starting PDF processing with PyMuPDF and Tesseract'']\<rparr>"
  have rm: "os_remove (os_fault env) (temp_file_path_of env) (fs ?st) = Inr f'"
    using assms(6) by simp
  show ?thesis
    unfolding run_extraction_returns[OF assms(1-5)] remove_then_success[OF rm assms(7)]
    by simp
qed



subsection \<open>The examples\<close>

lemma example_names:
  "\<not> endswith (lower ''notes.txt'') ''.pdf''"
  "endswith (lower ''scan.pdf'') ''.pdf''"
  "endswith (lower ''Report.PdF'') ''.pdf''"
  "endswith (lower ''SCAN.PDF'') ''.pdf''"
  by code_simp+

lemma example_reader_simps:
  "example_PdfReader [] = Inl (PdfReadError ''Cannot read an empty file'')"
  "example_PdfReader [37, 80, 68, 70] =
     Inr (Reader [PdfPage (Inr ''Invoice 2024''), PdfPage (Inr []), PdfPage (Inr ''Total: 12'')])"
  "example_PdfReader [37, 80, 68, 70, 48] = Inr (Reader [])"
  "example_PdfReader [37, 80, 68, 70, 49] =
     Inr (Reader [PdfPage (Inl (OtherException ''unsupported filter /JBIG2Decode''))])"
  "example_PdfReader [37, 80, 68, 70, 50] =
     Inr (Reader [PdfPage (Inl (PdfReadError ''Invalid content stream''))])"
  "example_PdfReader [37, 80, 68, 70, 51] = Inl (OtherException ''maximum recursion depth exceeded'')"
  by (simp_all add: example_PdfReader_def)

lemma example_loads_simps:
  "example_loads ''42'' = Inr (JInt 42)"
  "example_loads ''[1, 2]'' = Inr (JList [JInt 1, JInt 2])"
  "example_loads ''null'' = Inr JNull"
  "example_loads ''deu'' = Inl (JSONDecodeError ''Expecting value: line 1 column 1 (char 0)'')"
  "example_loads ''urgent'' = Inl (JSONDecodeError ''Expecting value: line 1 column 1 (char 0)'')"
  "example_loads (replicate 1200 (CHR ''['')) =
     Inl (OtherException ''maximum recursion depth exceeded while decoding a JSON array'')"
  by (simp_all add: example_loads_def takeWhile_replicate)

lemma example_env_with_simps:
  "cwd (example_env_with g) = ''/app''" "uuid4 (example_env_with g) = ''9f1c''"
  "elapsed (example_env_with g) = ''0.42''"
  "json_loads (example_env_with g) = example_loads"
  "PdfReader (example_env_with g) = example_PdfReader"
  "os_fault (example_env_with g) = (\<lambda>c. None)"
  "process_pdf_end_to_end (example_env_with g) = g"
  "render_error (example_env_with g) = (\<lambda>d. None)"
  by (simp_all add: example_env_with_def)

lemma example_paths:
  "temp_dir_of (example_env_with g) = ''/app/temp_files''"
  "temp_file_path_of (example_env_with g) = ''/app/temp_files/9f1c.pdf''"
  by (simp_all add: temp_dir_of_def temp_file_path_of_def path_join_def example_env_with_simps)

lemma example_no_store_fault: "no_store_fault (example_env_with g)"
  by (simp add: no_store_fault_def example_env_with_simps)

lemma example_gate:
  "validation_gate (example_env_with g)
     \<lparr>rfil_filename = ''scan.pdf'', rfil_contents = [37, 80, 68, 70], form_items = items\<rparr>"
  by (simp add: validation_gate_def example_names example_reader_simps example_env_with_simps)

lemma example_stored_fs:
  "stored_fs (example_env_with g)
     \<lparr>rfil_filename = n, rfil_contents = bs, form_items = items\<rparr> example_fs =
   \<lparr>files = [''/app/temp_files/9f1c.pdf'' \<mapsto> bs], dirs = {''/app/temp_files'', ''/app''}\<rparr>"
  by (simp add: stored_fs_def example_paths example_fs_def)

subsection \<open>Responses of the stages after the check of the file name\<close>







lemmas ex_simps = example_env_def example_env_with_simps example_names example_reader_simps
  example_loads_simps

section \<open>The claims\<close>

subsection \<open>The check of the file name\<close>




subsection \<open>Rejections\<close>




text \<open>
  C3, as the code has it. When the loop over the form fields has completed: a wrong file
  type, a document without pages, and a structural parse or first-page probe that raises
  \<open>PdfReadError\<close> are answered with status 400; a structural parse or first-page probe
  that raises any other exception is answered with status 500 and the text of the
  exception.
\<close>

theorem validation_failure_status:
  assumes "collect_additional_data (json_loads env) (form_items sub) [] = Inr ad"
  shows
  "(\<not> endswith (lower (rfil_filename sub)) ''.pdf'' \<longrightarrow>
      status_code (fst (process_rfil_workflow env sub disk)) = 400) \<and>
   (endswith (lower (rfil_filename sub)) ''.pdf'' \<and>
    PdfReader env (rfil_contents sub) = Inl e \<and> is_PdfReadError e \<longrightarrow>
      status_code (fst (process_rfil_workflow env sub disk)) = 400) \<and>
   (endswith (lower (rfil_filename sub)) ''.pdf'' \<and>
    PdfReader env (rfil_contents sub) = Inr rd \<and> reader_pages rd = [] \<longrightarrow>
      status_code (fst (process_rfil_workflow env sub disk)) = 400) \<and>
   (endswith (lower (rfil_filename sub)) ''.pdf'' \<and>
    PdfReader env (rfil_contents sub) = Inr rd \<and> reader_pages rd \<noteq> [] \<and>
    extract_text (reader_pages rd ! 0) = Inl e \<and> is_PdfReadError e \<longrightarrow>
      status_code (fst (process_rfil_workflow env sub disk)) = 400) \<and>
   (endswith (lower (rfil_filename sub)) ''.pdf'' \<and>
    PdfReader env (rfil_contents sub) = Inl e \<and> \<not> is_PdfReadError e \<longrightarrow>
      fst (process_rfil_workflow env sub disk) =
        JSONResponse 500 (ErrorContent (''An error occurred: '' @ str_exn e))) \<and>
   (endswith (lower (rfil_filename sub)) ''.pdf'' \<and>
    PdfReader env (rfil_contents sub) = Inr rd \<and> reader_pages rd \<noteq> [] \<and>
    extract_text (reader_pages rd ! 0) = Inl e \<and> \<not> is_PdfReadError e \<longrightarrow>
      fst (process_rfil_workflow env sub disk) =
        JSONResponse 500 (ErrorContent (''An error occurred: '' @ str_exn e)))"
proof (intro conjI impI)
  assume "\<not> endswith (lower (rfil_filename sub)) ''.pdf''"
  then show "status_code (fst (process_rfil_workflow env sub disk)) = 400"
    by (simp add: run_ext[OF assms])
next
  assume "endswith (lower (rfil_filename sub)) ''.pdf'' \<and>
    PdfReader env (rfil_contents sub) = Inl e \<and> is_PdfReadError e"
  then show "status_code (fst (process_rfil_workflow env sub disk)) = 400"
    by (simp add: run_parse[OF assms] except_handler_fst)
next
  assume "endswith (lower (rfil_filename sub)) ''.pdf'' \<and>
    PdfReader env (rfil_contents sub) = Inr rd \<and> reader_pages rd = []"
  then show "status_code (fst (process_rfil_workflow env sub disk)) = 400"
    by (simp add: run_empty[OF assms])
next
  assume "endswith (lower (rfil_filename sub)) ''.pdf'' \<and>
    PdfReader env (rfil_contents sub) = Inr rd \<and> reader_pages rd \<noteq> [] \<and>
    extract_text (reader_pages rd ! 0) = Inl e \<and> is_PdfReadError e"
  then show "status_code (fst (process_rfil_workflow env sub disk)) = 400"
    by (simp add: run_probe[OF assms] except_handler_fst)
next
  assume "endswith (lower (rfil_filename sub)) ''.pdf'' \<and>
    PdfReader env (rfil_contents sub) = Inl e \<and> \<not> is_PdfReadError e"
  then show "fst (process_rfil_workflow env sub disk) =
        JSONResponse 500 (ErrorContent (''An error occurred: '' @ str_exn e))"
    by (simp add: run_parse[OF assms] except_handler_fst)
next
  assume "endswith (lower (rfil_filename sub)) ''.pdf'' \<and>
    PdfReader env (rfil_contents sub) = Inr rd \<and> reader_pages rd \<noteq> [] \<and>
    extract_text (reader_pages rd ! 0) = Inl e \<and> \<not> is_PdfReadError e"
  then show "fst (process_rfil_workflow env sub disk) =
        JSONResponse 500 (ErrorContent (''An error occurred: '' @ str_exn e))"
    by (simp add: run_probe[OF assms] except_handler_fst)
qed

theorem validation_failure_status_witness:
  "status_code (fst (process_rfil_workflow example_env
      \<lparr>rfil_filename = ''notes.txt'', rfil_contents = [37, 80, 68, 70],
       form_items = [(''note'', FormStr ''urgent'')]\<rparr>
      example_fs)) = 400 \<and>
   status_code (fst (process_rfil_workflow example_env
      \<lparr>rfil_filename = ''scan.pdf'', rfil_contents = [],
       form_items = [(''note'', FormStr ''urgent'')]\<rparr> example_fs)) = 400 \<and>
   status_code (fst (process_rfil_workflow example_env
      \<lparr>rfil_filename = ''scan.pdf'', rfil_contents = [37, 80, 68, 70, 48],
       form_items = [(''note'', FormStr ''urgent'')]\<rparr>
      example_fs)) = 400 \<and>
   status_code (fst (process_rfil_workflow example_env
      \<lparr>rfil_filename = ''scan.pdf'', rfil_contents = [37, 80, 68, 70, 50],
       form_items = [(''note'', FormStr ''urgent'')]\<rparr>
      example_fs)) = 400 \<and>
   fst (process_rfil_workflow example_env
      \<lparr>rfil_filename = ''scan.pdf'', rfil_contents = [37, 80, 68, 70, 51],
       form_items = [(''note'', FormStr ''urgent'')]\<rparr>
      example_fs) =
     JSONResponse 500 (ErrorContent ''An error occurred: maximum recursion depth exceeded'') \<and>
   fst (process_rfil_workflow example_env
      \<lparr>rfil_filename = ''scan.pdf'', rfil_contents = [37, 80, 68, 70, 49],
       form_items = [(''note'', FormStr ''urgent'')]\<rparr>
      example_fs) =
     JSONResponse 500 (ErrorContent ''An error occurred: unsupported filter /JBIG2Decode'')"
  using
    validation_failure_status[where
      sub = "\<lparr>rfil_filename = ''notes.txt'', rfil_contents = [37, 80, 68, 70],
              form_items = [(''note'', FormStr ''urgent'')]\<rparr>"
      and env = example_env and disk = example_fs and ad = "[(''note'', JStr ''urgent'')]"]
    validation_failure_status[where
      sub = "\<lparr>rfil_filename = ''scan.pdf'', rfil_contents = [],
              form_items = [(''note'', FormStr ''urgent'')]\<rparr>"
      and env = example_env and disk = example_fs and ad = "[(''note'', JStr ''urgent'')]"
      and e = "PdfReadError ''Cannot read an empty file''"]
    validation_failure_status[where
      sub = "\<lparr>rfil_filename = ''scan.pdf'', rfil_contents = [37, 80, 68, 70, 48],
              form_items = [(''note'', FormStr ''urgent'')]\<rparr>"
      and env = example_env and disk = example_fs and ad = "[(''note'', JStr ''urgent'')]"
      and rd = "Reader []"]
    validation_failure_status[where
      sub = "\<lparr>rfil_filename = ''scan.pdf'', rfil_contents = [37, 80, 68, 70, 50],
              form_items = [(''note'', FormStr ''urgent'')]\<rparr>"
      and env = example_env and disk = example_fs and ad = "[(''note'', JStr ''urgent'')]"
      and e = "PdfReadError ''Invalid content stream''"
      and rd = "Reader [PdfPage (Inl (PdfReadError ''Invalid content stream''))]"]
    validation_failure_status[where
      sub = "\<lparr>rfil_filename = ''scan.pdf'', rfil_contents = [37, 80, 68, 70, 51],
              form_items = [(''note'', FormStr ''urgent'')]\<rparr>"
      and env = example_env and disk = example_fs and ad = "[(''note'', JStr ''urgent'')]"
      and e = "OtherException ''maximum recursion depth exceeded''"]
    validation_failure_status[where
      sub = "\<lparr>rfil_filename = ''scan.pdf'', rfil_contents = [37, 80, 68, 70, 49],
              form_items = [(''note'', FormStr ''urgent'')]\<rparr>"
      and env = example_env and disk = example_fs and ad = "[(''note'', JStr ''urgent'')]"
      and e = "OtherException ''unsupported filter /JBIG2Decode''"
      and rd = "Reader [PdfPage (Inl (OtherException ''unsupported filter /JBIG2Decode''))]"]
  by (simp add: example_env_def example_env_with_simps example_names example_reader_simps
        example_loads_simps)

text \<open>
  C3 as stated fails: a first page whose content stream cannot be decoded, with
  \<open>extract_text()\<close> raising an exception that is not a \<open>PdfReadError\<close>, is answered with
  status 500.
\<close>

theorem unreadable_first_page_counterexample:
  "status_code (fst (process_rfil_workflow example_env
      \<lparr>rfil_filename = ''scan.pdf'', rfil_contents = [37, 80, 68, 70, 49], form_items = []\<rparr>
      example_fs)) = 500"
proof -
  have "process_rfil_workflow example_env
      \<lparr>rfil_filename = ''scan.pdf'', rfil_contents = [37, 80, 68, 70, 49], form_items = []\<rparr>
      example_fs =
     except_handler (OtherException ''unsupported filter /JBIG2Decode'')
       \<lparr>fs = example_fs, log = [LogInfo ''RFIL workflow endpoint called'']\<rparr>"
    by (rule run_probe[where ad = "[]"
          and rd = "Reader [PdfPage (Inl (OtherException ''unsupported filter /JBIG2Decode''))]"])
       (simp_all add: example_env_def example_env_with_simps example_names example_reader_simps)
  then show ?thesis by (simp add: except_handler_fst)
qed

subsection \<open>The validation gate\<close>

lemma invalid_leaves_storage:
  assumes "collect_additional_data (json_loads env) (form_items sub) [] = Inr ad"
    "\<not> validation_gate env sub"
  shows "fs (snd (process_rfil_workflow env sub disk)) = disk"
proof (cases rule: validation_gate_cases[where sub = sub and env = env])
  case ext
  then show ?thesis by (simp add: run_ext[OF assms(1)])
next
  case (parse e)
  then show ?thesis by (simp add: run_parse[OF assms(1)] except_handler_fs)
next
  case (empty rd)
  then show ?thesis by (simp add: run_empty[OF assms(1)])
next
  case (probe rd e)
  then show ?thesis by (simp add: run_probe[OF assms(1)] except_handler_fs)
next
  case (valid rd t)
  with assms(2) show ?thesis by simp
qed

lemma invalid_independent_of_storage:
  assumes "collect_additional_data (json_loads env) (form_items sub) [] = Inr ad"
    "\<not> validation_gate env sub"
    "json_loads env' = json_loads env" "PdfReader env' = PdfReader env"
  shows "process_rfil_workflow env' sub disk = process_rfil_workflow env sub disk"
proof -
  have ad': "collect_additional_data (json_loads env') (form_items sub) [] = Inr ad"
    using assms(1,3) by simp
  show ?thesis
  proof (cases rule: validation_gate_cases[where sub = sub and env = env])
    case ext
    then show ?thesis by (simp add: run_ext[OF assms(1)] run_ext[OF ad'])
  next
    case (parse e)
    then have "PdfReader env' (rfil_contents sub) = Inl e" using assms(4) by simp
    with parse show ?thesis by (simp add: run_parse[OF assms(1)] run_parse[OF ad'])
  next
    case (empty rd)
    then have "PdfReader env' (rfil_contents sub) = Inr rd" using assms(4) by simp
    with empty show ?thesis by (simp add: run_empty[OF assms(1)] run_empty[OF ad'])
  next
    case (probe rd e)
    then have "PdfReader env' (rfil_contents sub) = Inr rd" using assms(4) by simp
    with probe show ?thesis by (simp add: run_probe[OF assms(1)] run_probe[OF ad'])
  next
    case (valid rd t)
    with assms(2) show ?thesis by simp
  qed
qed

lemma valid_makedirs_fault:
  assumes "collect_additional_data (json_loads env) (form_items sub) [] = Inr ad"
    "validation_gate env sub" "os_fault env (Makedirs (temp_dir_of env)) = Some m"
  shows "fst (process_rfil_workflow env sub disk) =
           JSONResponse 500 (ErrorContent (''An error occurred: '' @ m))"
    and "fs (snd (process_rfil_workflow env sub disk)) = disk"
proof -
  from assms(2) obtain rd t where v: "endswith (lower (rfil_filename sub)) ''.pdf''"
    "PdfReader env (rfil_contents sub) = Inr rd" "reader_pages rd \<noteq> []"
    "extract_text (reader_pages rd ! 0) = Inr t"
    by (rule validation_gateD)
  show "fst (process_rfil_workflow env sub disk) =
           JSONResponse 500 (ErrorContent (''An error occurred: '' @ m))"
    and "fs (snd (process_rfil_workflow env sub disk)) = disk"
    using v by (simp_all add: run_valid[OF assms(1)] store_makedirs_fault[OF assms(3)]
                  except_handler_fst except_handler_fs)
qed

lemma valid_extraction_raises:
  assumes "collect_additional_data (json_loads env) (form_items sub) [] = Inr ad"
    "validation_gate env sub" "no_store_fault env"
    "process_pdf_end_to_end env (temp_file_path_of env) ''bul+eng'' True
       (stored_fs env sub disk) = (Inl e, f)"
  shows "fst (process_rfil_workflow env sub disk) =
           (if is_PdfReadError e
            then JSONResponse 400 (ErrorContent ''The file is not a valid PDF'')
            else JSONResponse 500 (ErrorContent (''An error occurred: '' @ str_exn e)))"
    and "fs (snd (process_rfil_workflow env sub disk)) = f"
proof -
  from assms(2) obtain rd where rd: "PdfReader env (rfil_contents sub) = Inr rd"
    by (rule validation_gateD)
  show "fst (process_rfil_workflow env sub disk) =
           (if is_PdfReadError e
            then JSONResponse 400 (ErrorContent ''The file is not a valid PDF'')
            else JSONResponse 500 (ErrorContent (''An error occurred: '' @ str_exn e)))"
    and "fs (snd (process_rfil_workflow env sub disk)) = f"
    by (simp_all add: run_extraction_raises[OF assms(1-3) rd assms(4)]
          except_handler_fst except_handler_fs)
qed

text \<open>
  C4. The answer of the handler follows the order of the four checks, and nothing is
  stored before all four have passed. When the loop over the form fields has completed:
  a file name without the suffix is answered with the rejection of the name, whatever
  the bytes are and whatever \<open>PdfReader\<close> would do with them; with the suffix, an
  exception of \<open>PdfReader\<close> is answered by the \<open>except\<close> clauses; a reader without pages
  is answered with the rejection of the page count, and no page is read; with pages, an
  exception of \<open>extract_text()\<close> on the first page is answered by the \<open>except\<close> clauses.
  Unless all four checks pass, the file system is left as it was and the whole result is
  the same in any surroundings with the same \<open>json.loads\<close> and \<open>PdfReader\<close>: no call of
  the operating system and no extraction is consulted. When all four pass, the directory
  is created next (its failure is the answer), then the file is written and the
  extraction called on the file system that holds it. When the loop over the form fields
  is left by an exception, no check is made and nothing is stored.
\<close>

theorem validation_order_and_no_side_effect:
  "(collect_additional_data (json_loads env) (form_items sub) [] = Inl e' \<longrightarrow>
      process_rfil_workflow env sub disk =
        (Uncaught e', \<lparr>fs = disk, log = [LogInfo ''RFIL workflow endpoint called'']\<rparr>)) \<and>
   (collect_additional_data (json_loads env) (form_items sub) [] = Inr ad \<longrightarrow>
      (\<not> endswith (lower (rfil_filename sub)) ''.pdf'' \<longrightarrow>
         fst (process_rfil_workflow env sub disk) =
           HTTPException 400 ''Only PDF files are accepted'') \<and>
      (endswith (lower (rfil_filename sub)) ''.pdf'' \<and>
       PdfReader env (rfil_contents sub) = Inl e \<longrightarrow>
         fst (process_rfil_workflow env sub disk) =
           (if is_PdfReadError e
            then JSONResponse 400 (ErrorContent ''The file is not a valid PDF'')
            else JSONResponse 500 (ErrorContent (''An error occurred: '' @ str_exn e)))) \<and>
      (endswith (lower (rfil_filename sub)) ''.pdf'' \<and>
       PdfReader env (rfil_contents sub) = Inr rd \<and> reader_pages rd = [] \<longrightarrow>
         fst (process_rfil_workflow env sub disk) =
           JSONResponse 400 (ErrorContent ''The PDF file is empty or corrupt'')) \<and>
      (endswith (lower (rfil_filename sub)) ''.pdf'' \<and>
       PdfReader env (rfil_contents sub) = Inr rd \<and> reader_pages rd \<noteq> [] \<and>
       extract_text (reader_pages rd ! 0) = Inl e \<longrightarrow>
         fst (process_rfil_workflow env sub disk) =
           (if is_PdfReadError e
            then JSONResponse 400 (ErrorContent ''The file is not a valid PDF'')
            else JSONResponse 500 (ErrorContent (''An error occurred: '' @ str_exn e)))) \<and>
      (\<not> validation_gate env sub \<longrightarrow>
         fs (snd (process_rfil_workflow env sub disk)) = disk \<and>
         (json_loads env' = json_loads env \<and> PdfReader env' = PdfReader env \<longrightarrow>
            process_rfil_workflow env' sub disk = process_rfil_workflow env sub disk)) \<and>
      (validation_gate env sub \<and> os_fault env (Makedirs (temp_dir_of env)) = Some m \<longrightarrow>
         fst (process_rfil_workflow env sub disk) =
           JSONResponse 500 (ErrorContent (''An error occurred: '' @ m)) \<and>
         fs (snd (process_rfil_workflow env sub disk)) = disk) \<and>
      (validation_gate env sub \<and> no_store_fault env \<and>
       process_pdf_end_to_end env (temp_file_path_of env) ''bul+eng'' True
         (stored_fs env sub disk) = (Inl e, f) \<longrightarrow>
         fs (snd (process_rfil_workflow env sub disk)) = f))"
proof (intro conjI impI)
  assume "collect_additional_data (json_loads env) (form_items sub) [] = Inl e'"
  then show "process_rfil_workflow env sub disk =
        (Uncaught e', \<lparr>fs = disk, log = [LogInfo ''RFIL workflow endpoint called'']\<rparr>)"
    by (rule run_form_raises)
next
  assume ad: "collect_additional_data (json_loads env) (form_items sub) [] = Inr ad"
  {
    assume "\<not> endswith (lower (rfil_filename sub)) ''.pdf''"
    then show "fst (process_rfil_workflow env sub disk) =
           HTTPException 400 ''Only PDF files are accepted''"
      by (simp add: run_ext[OF ad])
  next
    assume "endswith (lower (rfil_filename sub)) ''.pdf'' \<and>
       PdfReader env (rfil_contents sub) = Inl e"
    then show "fst (process_rfil_workflow env sub disk) =
           (if is_PdfReadError e
            then JSONResponse 400 (ErrorContent ''The file is not a valid PDF'')
            else JSONResponse 500 (ErrorContent (''An error occurred: '' @ str_exn e)))"
      by (simp add: run_parse[OF ad] except_handler_fst)
  next
    assume "endswith (lower (rfil_filename sub)) ''.pdf'' \<and>
       PdfReader env (rfil_contents sub) = Inr rd \<and> reader_pages rd = []"
    then show "fst (process_rfil_workflow env sub disk) =
           JSONResponse 400 (ErrorContent ''The PDF file is empty or corrupt'')"
      by (simp add: run_empty[OF ad])
  next
    assume "endswith (lower (rfil_filename sub)) ''.pdf'' \<and>
       PdfReader env (rfil_contents sub) = Inr rd \<and> reader_pages rd \<noteq> [] \<and>
       extract_text (reader_pages rd ! 0) = Inl e"
    then show "fst (process_rfil_workflow env sub disk) =
           (if is_PdfReadError e
            then JSONResponse 400 (ErrorContent ''The file is not a valid PDF'')
            else JSONResponse 500 (ErrorContent (''An error occurred: '' @ str_exn e)))"
      by (simp add: run_probe[OF ad] except_handler_fst)
  next
    assume n: "\<not> validation_gate env sub"
    show "fs (snd (process_rfil_workflow env sub disk)) = disk"
      by (rule invalid_leaves_storage[OF ad n])
    assume "json_loads env' = json_loads env \<and> PdfReader env' = PdfReader env"
    then show "process_rfil_workflow env' sub disk = process_rfil_workflow env sub disk"
      using invalid_independent_of_storage[OF ad n, of env' disk] by simp
  next
    assume a: "validation_gate env sub \<and> os_fault env (Makedirs (temp_dir_of env)) = Some m"
    then have g: "validation_gate env sub"
      and m: "os_fault env (Makedirs (temp_dir_of env)) = Some m" by simp_all
    show "fst (process_rfil_workflow env sub disk) =
           JSONResponse 500 (ErrorContent (''An error occurred: '' @ m))"
      by (rule valid_makedirs_fault(1)[OF ad g m])
    show "fs (snd (process_rfil_workflow env sub disk)) = disk"
      by (rule valid_makedirs_fault(2)[OF ad g m])
  next
    assume a: "validation_gate env sub \<and> no_store_fault env \<and>
       process_pdf_end_to_end env (temp_file_path_of env) ''bul+eng'' True
         (stored_fs env sub disk) = (Inl e, f)"
    then show "fs (snd (process_rfil_workflow env sub disk)) = f"
      using valid_extraction_raises(2)[OF ad, of disk e f] by simp
  }
qed

theorem validation_order_and_no_side_effect_witness:
  "process_rfil_workflow example_env
      \<lparr>rfil_filename = ''notes.txt'', rfil_contents = [],
       form_items = [(''tree'', FormStr (replicate 1200 (CHR ''['')))]\<rparr> example_fs =
     (Uncaught (OtherException ''maximum recursion depth exceeded while decoding a JSON array''),
      \<lparr>fs = example_fs, log = [LogInfo ''RFIL workflow endpoint called'']\<rparr>) \<and>
   (PdfReader example_env [] = Inl (PdfReadError ''Cannot read an empty file'') \<and>
    fst (process_rfil_workflow example_env
      \<lparr>rfil_filename = ''notes.txt'', rfil_contents = [], form_items = []\<rparr> example_fs) =
     HTTPException 400 ''Only PDF files are accepted'') \<and>
   fst (process_rfil_workflow example_env
      \<lparr>rfil_filename = ''scan.pdf'', rfil_contents = [], form_items = []\<rparr> example_fs) =
     JSONResponse 400 (ErrorContent ''The file is not a valid PDF'') \<and>
   fst (process_rfil_workflow example_env
      \<lparr>rfil_filename = ''scan.pdf'', rfil_contents = [37, 80, 68, 70, 48], form_items = []\<rparr>
      example_fs) =
     JSONResponse 400 (ErrorContent ''The PDF file is empty or corrupt'') \<and>
   (fst (process_rfil_workflow example_env
      \<lparr>rfil_filename = ''scan.pdf'', rfil_contents = [37, 80, 68, 70, 49], form_items = []\<rparr>
      example_fs) =
     JSONResponse 500 (ErrorContent ''An error occurred: unsupported filter /JBIG2Decode'') \<and>
    fs (snd (process_rfil_workflow example_env
      \<lparr>rfil_filename = ''scan.pdf'', rfil_contents = [37, 80, 68, 70, 49], form_items = []\<rparr>
      example_fs)) = example_fs \<and>
    process_rfil_workflow
      (example_env\<lparr>cwd := ''/srv'', os_fault := (\<lambda>c. Some ''[Errno 28] No space left on device''),
                    process_pdf_end_to_end := failing_extraction\<rparr>)
      \<lparr>rfil_filename = ''scan.pdf'', rfil_contents = [37, 80, 68, 70, 49], form_items = []\<rparr>
      example_fs =
     process_rfil_workflow example_env
      \<lparr>rfil_filename = ''scan.pdf'', rfil_contents = [37, 80, 68, 70, 49], form_items = []\<rparr>
      example_fs) \<and>
   (fst (process_rfil_workflow
      (example_env\<lparr>os_fault := (\<lambda>c. if c = Makedirs ''/app/temp_files''
                                       then Some ''[Errno 13] Permission denied'' else None)\<rparr>)
      \<lparr>rfil_filename = ''scan.pdf'', rfil_contents = [37, 80, 68, 70], form_items = []\<rparr>
      example_fs) =
     JSONResponse 500 (ErrorContent ''An error occurred: [Errno 13] Permission denied'') \<and>
    fs (snd (process_rfil_workflow
      (example_env\<lparr>os_fault := (\<lambda>c. if c = Makedirs ''/app/temp_files''
                                       then Some ''[Errno 13] Permission denied'' else None)\<rparr>)
      \<lparr>rfil_filename = ''scan.pdf'', rfil_contents = [37, 80, 68, 70], form_items = []\<rparr>
      example_fs)) = example_fs) \<and>
   fs (snd (process_rfil_workflow (example_env_with failing_extraction)
      \<lparr>rfil_filename = ''scan.pdf'', rfil_contents = [37, 80, 68, 70], form_items = []\<rparr>
      example_fs)) =
     \<lparr>files = [''/app/temp_files/9f1c.pdf'' \<mapsto> [37, 80, 68, 70]],
      dirs = {''/app/temp_files'', ''/app''}\<rparr>"
proof (intro conjI)
  show "process_rfil_workflow example_env
      \<lparr>rfil_filename = ''notes.txt'', rfil_contents = [],
       form_items = [(''tree'', FormStr (replicate 1200 (CHR ''['')))]\<rparr> example_fs =
     (Uncaught (OtherException ''maximum recursion depth exceeded while decoding a JSON array''),
      \<lparr>fs = example_fs, log = [LogInfo ''RFIL workflow endpoint called'']\<rparr>)"
    using validation_order_and_no_side_effect[where env = example_env and disk = example_fs
      and sub = "\<lparr>rfil_filename = ''notes.txt'', rfil_contents = [],
                   form_items = [(''tree'', FormStr (replicate 1200 (CHR ''['')))]\<rparr>"
      and e' = "OtherException ''maximum recursion depth exceeded while decoding a JSON array''"]
    by (simp add: ex_simps)
next
  show "PdfReader example_env [] = Inl (PdfReadError ''Cannot read an empty file'')"
    by (simp add: ex_simps)
next
  show "fst (process_rfil_workflow example_env
      \<lparr>rfil_filename = ''notes.txt'', rfil_contents = [], form_items = []\<rparr> example_fs) =
     HTTPException 400 ''Only PDF files are accepted''"
    using validation_order_and_no_side_effect[where env = example_env and disk = example_fs
      and sub = "\<lparr>rfil_filename = ''notes.txt'', rfil_contents = [], form_items = []\<rparr>"
      and ad = "[]"]
    by (simp add: ex_simps)
next
  show "fst (process_rfil_workflow example_env
      \<lparr>rfil_filename = ''scan.pdf'', rfil_contents = [], form_items = []\<rparr> example_fs) =
     JSONResponse 400 (ErrorContent ''The file is not a valid PDF'')"
    using validation_order_and_no_side_effect[where env = example_env and disk = example_fs
      and sub = "\<lparr>rfil_filename = ''scan.pdf'', rfil_contents = [], form_items = []\<rparr>"
      and ad = "[]" and e = "PdfReadError ''Cannot read an empty file''"]
    by (simp add: ex_simps)
next
  show "fst (process_rfil_workflow example_env
      \<lparr>rfil_filename = ''scan.pdf'', rfil_contents = [37, 80, 68, 70, 48], form_items = []\<rparr>
      example_fs) =
     JSONResponse 400 (ErrorContent ''The PDF file is empty or corrupt'')"
    using validation_order_and_no_side_effect[where env = example_env and disk = example_fs
      and sub = "\<lparr>rfil_filename = ''scan.pdf'', rfil_contents = [37, 80, 68, 70, 48],
                   form_items = []\<rparr>"
      and ad = "[]" and rd = "Reader []"]
    by (simp add: ex_simps)
next
  note probe = validation_order_and_no_side_effect[where env = example_env and disk = example_fs
      and sub = "\<lparr>rfil_filename = ''scan.pdf'', rfil_contents = [37, 80, 68, 70, 49],
                   form_items = []\<rparr>"
      and ad = "[]" and e = "OtherException ''unsupported filter /JBIG2Decode''"
      and rd = "Reader [PdfPage (Inl (OtherException ''unsupported filter /JBIG2Decode''))]"
      and env' = "example_env\<lparr>cwd := ''/srv'',
                    os_fault := (\<lambda>c. Some ''[Errno 28] No space left on device''),
                    process_pdf_end_to_end := failing_extraction\<rparr>"]
  show "fst (process_rfil_workflow example_env
      \<lparr>rfil_filename = ''scan.pdf'', rfil_contents = [37, 80, 68, 70, 49], form_items = []\<rparr>
      example_fs) =
     JSONResponse 500 (ErrorContent ''An error occurred: unsupported filter /JBIG2Decode'')"
    using probe by (simp add: ex_simps validation_gate_def)
  show "fs (snd (process_rfil_workflow example_env
      \<lparr>rfil_filename = ''scan.pdf'', rfil_contents = [37, 80, 68, 70, 49], form_items = []\<rparr>
      example_fs)) = example_fs"
    using probe by (simp add: ex_simps validation_gate_def)
  show "process_rfil_workflow
      (example_env\<lparr>cwd := ''/srv'', os_fault := (\<lambda>c. Some ''[Errno 28] No space left on device''),
                    process_pdf_end_to_end := failing_extraction\<rparr>)
      \<lparr>rfil_filename = ''scan.pdf'', rfil_contents = [37, 80, 68, 70, 49], form_items = []\<rparr>
      example_fs =
     process_rfil_workflow example_env
      \<lparr>rfil_filename = ''scan.pdf'', rfil_contents = [37, 80, 68, 70, 49], form_items = []\<rparr>
      example_fs"
    using probe by (simp add: ex_simps validation_gate_def)
next
  note dirs = validation_order_and_no_side_effect[where disk = example_fs
      and env = "example_env\<lparr>os_fault := (\<lambda>c. if c = Makedirs ''/app/temp_files''
                                       then Some ''[Errno 13] Permission denied'' else None)\<rparr>"
      and sub = "\<lparr>rfil_filename = ''scan.pdf'', rfil_contents = [37, 80, 68, 70],
                   form_items = []\<rparr>"
      and ad = "[]" and m = "''[Errno 13] Permission denied''"]
  show "fst (process_rfil_workflow
      (example_env\<lparr>os_fault := (\<lambda>c. if c = Makedirs ''/app/temp_files''
                                       then Some ''[Errno 13] Permission denied'' else None)\<rparr>)
      \<lparr>rfil_filename = ''scan.pdf'', rfil_contents = [37, 80, 68, 70], form_items = []\<rparr>
      example_fs) =
     JSONResponse 500 (ErrorContent ''An error occurred: [Errno 13] Permission denied'')"
    using dirs by (simp add: ex_simps validation_gate_def temp_dir_of_def path_join_def)
  show "fs (snd (process_rfil_workflow
      (example_env\<lparr>os_fault := (\<lambda>c. if c = Makedirs ''/app/temp_files''
                                       then Some ''[Errno 13] Permission denied'' else None)\<rparr>)
      \<lparr>rfil_filename = ''scan.pdf'', rfil_contents = [37, 80, 68, 70], form_items = []\<rparr>
      example_fs)) = example_fs"
    using dirs by (simp add: ex_simps validation_gate_def temp_dir_of_def path_join_def)
next
  show "fs (snd (process_rfil_workflow (example_env_with failing_extraction)
      \<lparr>rfil_filename = ''scan.pdf'', rfil_contents = [37, 80, 68, 70], form_items = []\<rparr>
      example_fs)) =
     \<lparr>files = [''/app/temp_files/9f1c.pdf'' \<mapsto> [37, 80, 68, 70]],
      dirs = {''/app/temp_files'', ''/app''}\<rparr>"
    using validation_order_and_no_side_effect[where disk = example_fs
      and env = "example_env_with failing_extraction"
      and sub = "\<lparr>rfil_filename = ''scan.pdf'', rfil_contents = [37, 80, 68, 70],
                   form_items = []\<rparr>"
      and ad = "[]"
      and e = "OtherException ''tesseract is not installed or it is not in your PATH''"
      and f = "\<lparr>files = [''/app/temp_files/9f1c.pdf'' \<mapsto> [37, 80, 68, 70]],
                 dirs = {''/app/temp_files'', ''/app''}\<rparr>"]
    by (simp add: ex_simps example_gate example_no_store_fault example_paths example_stored_fs
          failing_extraction_def)
qed

subsection \<open>The language of the extraction call\<close>

lemma with_extraction_simps:
  "temp_dir_of (env\<lparr>process_pdf_end_to_end := g\<rparr>) = temp_dir_of env"
  "temp_file_path_of (env\<lparr>process_pdf_end_to_end := g\<rparr>) = temp_file_path_of env"
  "stored_fs (env\<lparr>process_pdf_end_to_end := g\<rparr>) sub disk = stored_fs env sub disk"
  "no_store_fault (env\<lparr>process_pdf_end_to_end := g\<rparr>) = no_store_fault env"
  "validation_gate (env\<lparr>process_pdf_end_to_end := g\<rparr>) sub = validation_gate env sub"
  "response_data_of (env\<lparr>process_pdf_end_to_end := g\<rparr>) sub rd ad res =
     response_data_of env sub rd ad res"
  by (simp_all add: temp_dir_of_def temp_file_path_of_def stored_fs_def no_store_fault_def
        validation_gate_def response_data_of_def)

lemma remove_and_return_with_extraction:
  "remove_and_return (env\<lparr>process_pdf_end_to_end := g\<rparr>) p d st = remove_and_return env p d st"
  by (simp add: remove_and_return_def Let_def split: sum.split option.split)

lemma extract_and_respond_with_extraction:
  assumes "g p ''bul+eng'' True (fs st) = process_pdf_end_to_end env p ''bul+eng'' True (fs st)"
  shows "extract_and_respond (env\<lparr>process_pdf_end_to_end := g\<rparr>) sub ad rd fid p st =
         extract_and_respond env sub ad rd fid p st"
  using assms
  by (simp add: extract_and_respond_def Let_def state_defs remove_and_return_with_extraction
        split: prod.split sum.split)

lemma store_and_process_with_extraction:
  assumes "g (temp_file_path_of env) ''bul+eng'' True (stored_fs env sub (fs st)) =
           process_pdf_end_to_end env (temp_file_path_of env) ''bul+eng'' True
             (stored_fs env sub (fs st))"
  shows "store_and_process (env\<lparr>process_pdf_end_to_end := g\<rparr>) sub ad rd st =
         store_and_process env sub ad rd st"
proof (cases "no_store_fault env")
  case True
  then have t': "no_store_fault (env\<lparr>process_pdf_end_to_end := g\<rparr>)"
    by (simp add: with_extraction_simps)
  have "extract_and_respond (env\<lparr>process_pdf_end_to_end := g\<rparr>) sub ad rd (uuid4 env)
          (temp_file_path_of env)
          \<lparr>fs = stored_fs env sub (fs st),
           log = log st @ [LogInfo (''PDF saved to temporary file: '' @ temp_file_path_of env)]\<rparr> =
        extract_and_respond env sub ad rd (uuid4 env) (temp_file_path_of env)
          \<lparr>fs = stored_fs env sub (fs st),
           log = log st @ [LogInfo (''PDF saved to temporary file: '' @ temp_file_path_of env)]\<rparr>"
    by (rule extract_and_respond_with_extraction) (simp add: assms)
  then show ?thesis
    by (simp add: store_ok[OF True] store_ok[OF t'] with_extraction_simps)
next
  case False
  show ?thesis
  proof (cases "os_fault env (Makedirs (temp_dir_of env))")
    case (Some m)
    then have "os_fault (env\<lparr>process_pdf_end_to_end := g\<rparr>)
                 (Makedirs (temp_dir_of (env\<lparr>process_pdf_end_to_end := g\<rparr>))) = Some m"
      by (simp add: with_extraction_simps)
    from store_makedirs_fault[OF this] store_makedirs_fault[OF Some]
    show ?thesis by (simp add: except_handler_def)
  next
    case n1: None
    then have n1': "os_fault (env\<lparr>process_pdf_end_to_end := g\<rparr>)
                 (Makedirs (temp_dir_of (env\<lparr>process_pdf_end_to_end := g\<rparr>))) = None"
      by (simp add: with_extraction_simps)
    show ?thesis
    proof (cases "os_fault env (OpenWb (temp_file_path_of env))")
      case (Some m)
      then have "os_fault (env\<lparr>process_pdf_end_to_end := g\<rparr>)
                 (OpenWb (temp_file_path_of (env\<lparr>process_pdf_end_to_end := g\<rparr>))) = Some m"
        by (simp add: with_extraction_simps)
      from store_open_fault[OF n1' this] store_open_fault[OF n1 Some]
      show ?thesis by (simp add: except_handler_def with_extraction_simps)
    next
      case n2: None
      then have n2': "os_fault (env\<lparr>process_pdf_end_to_end := g\<rparr>)
                 (OpenWb (temp_file_path_of (env\<lparr>process_pdf_end_to_end := g\<rparr>))) = None"
        by (simp add: with_extraction_simps)
      show ?thesis
      proof (cases "os_fault env (WriteBytes (temp_file_path_of env))")
        case (Some m)
        then have "os_fault (env\<lparr>process_pdf_end_to_end := g\<rparr>)
                 (WriteBytes (temp_file_path_of (env\<lparr>process_pdf_end_to_end := g\<rparr>))) = Some m"
          by (simp add: with_extraction_simps)
        from store_write_fault[OF n1' n2' this] store_write_fault[OF n1 n2 Some]
        show ?thesis by (simp add: except_handler_def with_extraction_simps)
      next
        case None
        with n1 n2 False show ?thesis by (simp add: no_store_fault_def)
      qed
    qed
  qed
qed

lemma extraction_only_at_fixed_call:
  assumes "g (temp_file_path_of env) ''bul+eng'' True (stored_fs env sub disk) =
           process_pdf_end_to_end env (temp_file_path_of env) ''bul+eng'' True
             (stored_fs env sub disk)"
  shows "process_rfil_workflow (env\<lparr>process_pdf_end_to_end := g\<rparr>) sub disk =
         process_rfil_workflow env sub disk"
proof (cases "collect_additional_data (json_loads env) (form_items sub) []")
  case (Inl e)
  then have "collect_additional_data (json_loads (env\<lparr>process_pdf_end_to_end := g\<rparr>))
               (form_items sub) [] = Inl e" by simp
  from run_form_raises[OF this] run_form_raises[OF Inl] show ?thesis by simp
next
  case (Inr ad)
  then have ad': "collect_additional_data (json_loads (env\<lparr>process_pdf_end_to_end := g\<rparr>))
               (form_items sub) [] = Inr ad" by simp
  show ?thesis
  proof (cases "validation_gate env sub")
    case False
    show ?thesis
      by (rule invalid_independent_of_storage[OF Inr False]) simp_all
  next
    case True
    then obtain rd t where v: "endswith (lower (rfil_filename sub)) ''.pdf''"
      "PdfReader env (rfil_contents sub) = Inr rd" "reader_pages rd \<noteq> []"
      "extract_text (reader_pages rd ! 0) = Inr t"
      by (rule validation_gateD)
    have v': "PdfReader (env\<lparr>process_pdf_end_to_end := g\<rparr>) (rfil_contents sub) = Inr rd"
      using v(2) by simp
    let ?st = "\<lparr>fs = disk,
        log = [LogInfo ''RFIL workflow endpoint called'',
               LogInfo (''PDF validated successfully: '' @ rfil_filename sub @ '', ''
                        @ str_nat (length (reader_pages rd)) @ '' pages'')]\<rparr>"
    have "store_and_process (env\<lparr>process_pdf_end_to_end := g\<rparr>) sub ad rd ?st =
          store_and_process env sub ad rd ?st"
      by (rule store_and_process_with_extraction) (simp add: assms)
    then show ?thesis
      by (simp only: run_valid[OF Inr v] run_valid[OF ad' v(1) v' v(3,4)])
  qed
qed

text \<open>
  C7, as the code has it. The language of the extraction is fixed in the handler, not
  supplied by the caller. The handler consults \<open>process_pdf_end_to_end\<close> at one argument
  list only, the temporary file, the language \<open>bul+eng\<close> and \<open>save_text=True\<close>: its result
  is the same with any extraction function that agrees with the given one there,
  whatever that function does for other languages. When the loop over the form fields
  has completed, the four checks pass and the file is stored, the outcome of that one
  call decides the response: its exception is answered by the \<open>except\<close> clauses, and what
  it returns is the \<open>process_results\<close> of the success response.
\<close>

theorem ocr_language_fixed:
  "(g (temp_file_path_of env) ''bul+eng'' True (stored_fs env sub disk) =
      process_pdf_end_to_end env (temp_file_path_of env) ''bul+eng'' True
        (stored_fs env sub disk) \<longrightarrow>
    process_rfil_workflow (env\<lparr>process_pdf_end_to_end := g\<rparr>) sub disk =
      process_rfil_workflow env sub disk) \<and>
   (collect_additional_data (json_loads env) (form_items sub) [] = Inr ad \<and>
    validation_gate env sub \<and> no_store_fault env \<and>
    PdfReader env (rfil_contents sub) = Inr rd \<longrightarrow>
      (process_pdf_end_to_end env (temp_file_path_of env) ''bul+eng'' True
         (stored_fs env sub disk) = (Inl e, f) \<longrightarrow>
       fst (process_rfil_workflow env sub disk) =
         (if is_PdfReadError e
          then JSONResponse 400 (ErrorContent ''The file is not a valid PDF'')
          else JSONResponse 500 (ErrorContent (''An error occurred: '' @ str_exn e))) \<and>
       fs (snd (process_rfil_workflow env sub disk)) = f) \<and>
      (process_pdf_end_to_end env (temp_file_path_of env) ''bul+eng'' True
         (stored_fs env sub disk) = (Inr res, f) \<and>
       os_remove (os_fault env) (temp_file_path_of env) f = Inr f' \<and>
       render_error env (response_data_of env sub rd ad res) = None \<longrightarrow>
       fst (process_rfil_workflow env sub disk) =
         JSONResponse 200 (SuccessContent (response_data_of env sub rd ad res))))"
proof (intro conjI impI)
  assume "g (temp_file_path_of env) ''bul+eng'' True (stored_fs env sub disk) =
      process_pdf_end_to_end env (temp_file_path_of env) ''bul+eng'' True
        (stored_fs env sub disk)"
  then show "process_rfil_workflow (env\<lparr>process_pdf_end_to_end := g\<rparr>) sub disk =
      process_rfil_workflow env sub disk"
    by (rule extraction_only_at_fixed_call)
next
  assume a: "collect_additional_data (json_loads env) (form_items sub) [] = Inr ad \<and>
    validation_gate env sub \<and> no_store_fault env \<and>
    PdfReader env (rfil_contents sub) = Inr rd"
  then have ad: "collect_additional_data (json_loads env) (form_items sub) [] = Inr ad"
    and gate: "validation_gate env sub" and nf: "no_store_fault env"
    and rd: "PdfReader env (rfil_contents sub) = Inr rd" by simp_all
  {
    assume pr: "process_pdf_end_to_end env (temp_file_path_of env) ''bul+eng'' True
         (stored_fs env sub disk) = (Inl e, f)"
    show "fst (process_rfil_workflow env sub disk) =
         (if is_PdfReadError e
          then JSONResponse 400 (ErrorContent ''The file is not a valid PDF'')
          else JSONResponse 500 (ErrorContent (''An error occurred: '' @ str_exn e)))"
      by (rule valid_extraction_raises(1)[OF ad gate nf pr])
    show "fs (snd (process_rfil_workflow env sub disk)) = f"
      by (rule valid_extraction_raises(2)[OF ad gate nf pr])
  next
    assume b: "process_pdf_end_to_end env (temp_file_path_of env) ''bul+eng'' True
         (stored_fs env sub disk) = (Inr res, f) \<and>
       os_remove (os_fault env) (temp_file_path_of env) f = Inr f' \<and>
       render_error env (response_data_of env sub rd ad res) = None"
    then have pr: "process_pdf_end_to_end env (temp_file_path_of env) ''bul+eng'' True
         (stored_fs env sub disk) = (Inr res, f)"
      and rm: "os_remove (os_fault env) (temp_file_path_of env) f = Inr f'"
      and re: "render_error env (response_data_of env sub rd ad res) = None" by simp_all
    show "fst (process_rfil_workflow env sub disk) =
         JSONResponse 200 (SuccessContent (response_data_of env sub rd ad res))"
      by (simp add: run_success[OF ad gate nf rd pr rm re])
  }
qed

lemma example_remove:
  "os_remove (\<lambda>c. None) ''/app/temp_files/9f1c.pdf''
     \<lparr>files = [''/app/temp_files/9f1c.pdf'' \<mapsto> bs], dirs = ds\<rparr> =
   Inr \<lparr>files = Map.empty, dirs = ds\<rparr>"
  by (simp add: os_remove_def)

lemma str_nat_3: "str_nat 3 = ''3''" "char_of (51::nat) = CHR ''3''"
  by code_simp+

lemma example_reporting_run:
  "process_rfil_workflow (example_env_with reporting_extraction)
     \<lparr>rfil_filename = ''scan.pdf'', rfil_contents = [37, 80, 68, 70],
      form_items = [(''ocr_language'', FormStr ''deu'')]\<rparr> example_fs =
   (JSONResponse 200 (SuccessContent
      \<lparr>status = ''success'', message = ''PDF file has been processed successfully'',
       filename = ''scan.pdf'', file_id = ''9f1c'', pages = 3,
       process_results = (''/app/temp_files/9f1c.pdf'', ''bul+eng'', True),
       additional_data = Some [(''ocr_language'', JStr ''deu'')],
       processing_time = ''0.42 seconds''\<rparr>),
    \<lparr>fs = \<lparr>files = Map.empty, dirs = {''/app/temp_files'', ''/app''}\<rparr>,
     log = [LogInfo ''RFIL workflow endpoint called'',
            LogInfo ''PDF validated successfully: scan.pdf, 3 pages'',
            LogInfo ''PDF saved to temporary file: /app/temp_files/9f1c.pdf'',
            LogInfo ''Starting PDF processing with PyMuPDF and Tesseract'',
            LogInfo ''Processing completed in 0.42 seconds'',
            LogInfo ''Removed temp file: /app/temp_files/9f1c.pdf'']\<rparr>)"
proof -
  let ?env = "example_env_with reporting_extraction"
  let ?sub = "\<lparr>rfil_filename = ''scan.pdf'', rfil_contents = [37, 80, 68, 70],
      form_items = [(''ocr_language'', FormStr ''deu'')]\<rparr>"
  let ?rd = "Reader [PdfPage (Inr ''Invoice 2024''), PdfPage (Inr []), PdfPage (Inr ''Total: 12'')]"
  have ad: "collect_additional_data (json_loads ?env) (form_items ?sub) [] =
      Inr [(''ocr_language'', JStr ''deu'')]"
    by (simp add: example_env_with_simps example_loads_simps)
  have rd: "PdfReader ?env (rfil_contents ?sub) = Inr ?rd"
    by (simp add: example_env_with_simps example_reader_simps)
  have pr: "process_pdf_end_to_end ?env (temp_file_path_of ?env) ''bul+eng'' True
      (stored_fs ?env ?sub example_fs) =
      (Inr (''/app/temp_files/9f1c.pdf'', ''bul+eng'', True),
       \<lparr>files = [''/app/temp_files/9f1c.pdf'' \<mapsto> [37, 80, 68, 70]],
        dirs = {''/app/temp_files'', ''/app''}\<rparr>)"
    by (simp add: example_env_with_simps example_paths example_stored_fs
          reporting_extraction_def)
  have rm: "os_remove (os_fault ?env) (temp_file_path_of ?env)
      \<lparr>files = [''/app/temp_files/9f1c.pdf'' \<mapsto> [37, 80, 68, 70]],
       dirs = {''/app/temp_files'', ''/app''}\<rparr> =
      Inr \<lparr>files = Map.empty, dirs = {''/app/temp_files'', ''/app''}\<rparr>"
    by (simp add: example_env_with_simps example_paths example_remove)
  have re: "render_error ?env (response_data_of ?env ?sub ?rd
      [(''ocr_language'', JStr ''deu'')] (''/app/temp_files/9f1c.pdf'', ''bul+eng'', True)) = None"
    by (simp add: example_env_with_simps)
  show ?thesis
    unfolding run_success[OF ad example_gate example_no_store_fault rd pr rm re]
    by (simp add: response_data_of_def example_env_with_simps example_paths str_nat_3)
qed

theorem ocr_language_fixed_witness:
  "process_rfil_workflow
     ((example_env_with reporting_extraction)
        \<lparr>process_pdf_end_to_end :=
           (\<lambda>location lang save_text f.
              if lang = ''bul+eng'' then reporting_extraction location lang save_text f
              else (Inl (OtherException ''Failed loading language''), f))\<rparr>)
     \<lparr>rfil_filename = ''scan.pdf'', rfil_contents = [37, 80, 68, 70],
      form_items = [(''ocr_language'', FormStr ''deu'')]\<rparr> example_fs =
   process_rfil_workflow (example_env_with reporting_extraction)
     \<lparr>rfil_filename = ''scan.pdf'', rfil_contents = [37, 80, 68, 70],
      form_items = [(''ocr_language'', FormStr ''deu'')]\<rparr> example_fs \<and>
   fst (process_rfil_workflow (example_env_with reporting_extraction)
     \<lparr>rfil_filename = ''scan.pdf'', rfil_contents = [37, 80, 68, 70],
      form_items = [(''ocr_language'', FormStr ''deu'')]\<rparr> example_fs) =
   JSONResponse 200 (SuccessContent
      \<lparr>status = ''success'', message = ''PDF file has been processed successfully'',
       filename = ''scan.pdf'', file_id = ''9f1c'', pages = 3,
       process_results = (''/app/temp_files/9f1c.pdf'', ''bul+eng'', True),
       additional_data = Some [(''ocr_language'', JStr ''deu'')],
       processing_time = ''0.42 seconds''\<rparr>) \<and>
   fst (process_rfil_workflow (example_env_with failing_extraction)
     \<lparr>rfil_filename = ''scan.pdf'', rfil_contents = [37, 80, 68, 70],
      form_items = [(''ocr_language'', FormStr ''deu'')]\<rparr> example_fs) =
   JSONResponse 500 (ErrorContent
     ''An error occurred: tesseract is not installed or it is not in your PATH'')"
proof -
  note inst = ocr_language_fixed[where env = "example_env_with reporting_extraction"
      and disk = example_fs
      and sub = "\<lparr>rfil_filename = ''scan.pdf'', rfil_contents = [37, 80, 68, 70],
                   form_items = [(''ocr_language'', FormStr ''deu'')]\<rparr>"
      and g = "\<lambda>location lang save_text f.
              if lang = ''bul+eng'' then reporting_extraction location lang save_text f
              else (Inl (OtherException ''Failed loading language''), f)"
      and ad = "[(''ocr_language'', JStr ''deu'')]"
      and rd = "Reader [PdfPage (Inr ''Invoice 2024''), PdfPage (Inr []),
                        PdfPage (Inr ''Total: 12'')]"
      and res = "(''/app/temp_files/9f1c.pdf'', ''bul+eng'', True)"
      and f = "\<lparr>files = [''/app/temp_files/9f1c.pdf'' \<mapsto> [37, 80, 68, 70]],
                 dirs = {''/app/temp_files'', ''/app''}\<rparr>"
      and f' = "\<lparr>files = Map.empty, dirs = {''/app/temp_files'', ''/app''}\<rparr>"]
  have a: "process_rfil_workflow
     ((example_env_with reporting_extraction)
        \<lparr>process_pdf_end_to_end :=
           (\<lambda>location lang save_text f.
              if lang = ''bul+eng'' then reporting_extraction location lang save_text f
              else (Inl (OtherException ''Failed loading language''), f))\<rparr>)
     \<lparr>rfil_filename = ''scan.pdf'', rfil_contents = [37, 80, 68, 70],
      form_items = [(''ocr_language'', FormStr ''deu'')]\<rparr> example_fs =
   process_rfil_workflow (example_env_with reporting_extraction)
     \<lparr>rfil_filename = ''scan.pdf'', rfil_contents = [37, 80, 68, 70],
      form_items = [(''ocr_language'', FormStr ''deu'')]\<rparr> example_fs"
    using inst by (simp add: example_env_with_simps)
  have b: "fst (process_rfil_workflow (example_env_with reporting_extraction)
     \<lparr>rfil_filename = ''scan.pdf'', rfil_contents = [37, 80, 68, 70],
      form_items = [(''ocr_language'', FormStr ''deu'')]\<rparr> example_fs) =
   JSONResponse 200 (SuccessContent
      \<lparr>status = ''success'', message = ''PDF file has been processed successfully'',
       filename = ''scan.pdf'', file_id = ''9f1c'', pages = 3,
       process_results = (''/app/temp_files/9f1c.pdf'', ''bul+eng'', True),
       additional_data = Some [(''ocr_language'', JStr ''deu'')],
       processing_time = ''0.42 seconds''\<rparr>)"
    using inst
    by (simp add: example_env_with_simps example_loads_simps example_reader_simps example_gate
          example_no_store_fault example_paths example_stored_fs example_remove
          reporting_extraction_def response_data_of_def)
  have c: "fst (process_rfil_workflow (example_env_with failing_extraction)
     \<lparr>rfil_filename = ''scan.pdf'', rfil_contents = [37, 80, 68, 70],
      form_items = [(''ocr_language'', FormStr ''deu'')]\<rparr> example_fs) =
   JSONResponse 500 (ErrorContent
     ''An error occurred: tesseract is not installed or it is not in your PATH'')"
    using ocr_language_fixed[where env = "example_env_with failing_extraction"
      and disk = example_fs
      and sub = "\<lparr>rfil_filename = ''scan.pdf'', rfil_contents = [37, 80, 68, 70],
                   form_items = [(''ocr_language'', FormStr ''deu'')]\<rparr>"
      and ad = "[(''ocr_language'', JStr ''deu'')]"
      and rd = "Reader [PdfPage (Inr ''Invoice 2024''), PdfPage (Inr []),
                        PdfPage (Inr ''Total: 12'')]"
      and e = "OtherException ''tesseract is not installed or it is not in your PATH''"
      and f = "\<lparr>files = [''/app/temp_files/9f1c.pdf'' \<mapsto> [37, 80, 68, 70]],
                 dirs = {''/app/temp_files'', ''/app''}\<rparr>"]
    by (simp add: example_env_with_simps example_loads_simps example_reader_simps example_gate
          example_no_store_fault example_paths example_stored_fs failing_extraction_def)
  from a b c show ?thesis by blast
qed

text \<open>
  C7 as stated fails: the caller supplies the language \<open>deu\<close>, in a form field named as
  the parameter of the extraction; an extraction that reports its arguments reports
  the language \<open>bul+eng\<close>, and the field comes back as a string of \<open>additional_data\<close>.
\<close>

theorem caller_language_ignored_counterexample:
  "map_of [(''ocr_language'', FormStr ''deu'')] ''ocr_language'' = Some (FormStr ''deu'') \<and>
   fst (process_rfil_workflow (example_env_with reporting_extraction)
     \<lparr>rfil_filename = ''scan.pdf'', rfil_contents = [37, 80, 68, 70],
      form_items = [(''ocr_language'', FormStr ''deu'')]\<rparr> example_fs) =
   JSONResponse 200 (SuccessContent
      \<lparr>status = ''success'', message = ''PDF file has been processed successfully'',
       filename = ''scan.pdf'', file_id = ''9f1c'', pages = 3,
       process_results = (''/app/temp_files/9f1c.pdf'', ''bul+eng'', True),
       additional_data = Some [(''ocr_language'', JStr ''deu'')],
       processing_time = ''0.42 seconds''\<rparr>) \<and>
   ''bul+eng'' \<noteq> ''deu''"
  by (simp add: example_reporting_run)

subsection \<open>The temporary file at the end of the request\<close>

lemma os_remove_raises:
  assumes "os_remove fault p f = Inl e"
  shows "\<not> is_PdfReadError e"
  using assms by (auto simp: os_remove_def split: option.splits if_splits)

lemma os_remove_returns:
  assumes "os_remove fault p f = Inr f'"
  shows "files f' p = None"
  using assms by (auto simp: os_remove_def split: option.splits if_splits)

lemma stored_fs_file:
  "files (stored_fs env sub disk) (temp_file_path_of env) = Some (rfil_contents sub)"
  by (simp add: stored_fs_def)

lemma valid_removal_fails:
  assumes "collect_additional_data (json_loads env) (form_items sub) [] = Inr ad"
    "validation_gate env sub" "no_store_fault env" "PdfReader env (rfil_contents sub) = Inr rd"
    "process_pdf_end_to_end env (temp_file_path_of env) ''bul+eng'' True
       (stored_fs env sub disk) = (Inr res, f)"
    "os_remove (os_fault env) (temp_file_path_of env) f = Inl e"
  shows "process_rfil_workflow env sub disk =
     (JSONResponse 500 (ErrorContent (''An error occurred: '' @ str_exn e)),
      \<lparr>fs = f,
       log = [LogInfo ''RFIL workflow endpoint called'',
              LogInfo (''PDF validated successfully: '' @ rfil_filename sub @ '', ''
                       @ str_nat (length (reader_pages rd)) @ '' pages''),
              LogInfo (''PDF saved to temporary file: '' @ temp_file_path_of env),
              LogInfo ''Starting PDF processing with PyMuPDF and Tesseract'',
              LogInfo (''Processing completed in '' @ elapsed env @ '' seconds''),
              LogError (''Error during RFIL processing: '' @ str_exn e),
              LogTraceback e]\<rparr>)"
  unfolding run_removal_fails[OF assms] except_handler_500[OF os_remove_raises[OF assms(6)]]
  by simp

lemma valid_removed:
  assumes "collect_additional_data (json_loads env) (form_items sub) [] = Inr ad"
    "validation_gate env sub" "no_store_fault env"
    "process_pdf_end_to_end env (temp_file_path_of env) ''bul+eng'' True
       (stored_fs env sub disk) = (Inr res, f)"
    "os_remove (os_fault env) (temp_file_path_of env) f = Inr f'"
  shows "fs (snd (process_rfil_workflow env sub disk)) = f'"
proof -
  from assms(2) obtain rd where rd: "PdfReader env (rfil_contents sub) = Inr rd"
    by (rule validation_gateD)
  show ?thesis
  proof (cases "render_error env (response_data_of env sub rd ad res)")
    case None
    show ?thesis
      by (simp add: run_success[OF assms(1-3) rd assms(4,5) None])
  next
    case (Some m)
    show ?thesis
      by (simp add: run_render_fails[OF assms(1-3) rd assms(4,5) Some] except_handler_fs)
  qed
qed

text \<open>
  C1, as the code has it. The temporary file is removed on one path only, after the
  extraction has returned (line 191). In a request that has stored its file, the file
  holds the uploaded bytes when the extraction is called; when the extraction raises,
  the handler answers through its \<open>except\<close> clauses and the file system is left as the
  extraction left it, the temporary file included; when the extraction returns and
  \<open>os.remove\<close> succeeds, the file is gone at the end of the request.
\<close>

theorem temp_file_left_when_extraction_raises:
  assumes "collect_additional_data (json_loads env) (form_items sub) [] = Inr ad"
    and "validation_gate env sub" and "no_store_fault env"
  shows "files (stored_fs env sub disk) (temp_file_path_of env) = Some (rfil_contents sub) \<and>
    (process_pdf_end_to_end env (temp_file_path_of env) ''bul+eng'' True
       (stored_fs env sub disk) = (Inl e, f) \<longrightarrow>
     fst (process_rfil_workflow env sub disk) =
       (if is_PdfReadError e
        then JSONResponse 400 (ErrorContent ''The file is not a valid PDF'')
        else JSONResponse 500 (ErrorContent (''An error occurred: '' @ str_exn e))) \<and>
     fs (snd (process_rfil_workflow env sub disk)) = f \<and>
     files (fs (snd (process_rfil_workflow env sub disk))) (temp_file_path_of env) =
       files f (temp_file_path_of env)) \<and>
    (process_pdf_end_to_end env (temp_file_path_of env) ''bul+eng'' True
       (stored_fs env sub disk) = (Inr res, f) \<and>
     os_remove (os_fault env) (temp_file_path_of env) f = Inr f' \<longrightarrow>
     fs (snd (process_rfil_workflow env sub disk)) = f' \<and>
     files (fs (snd (process_rfil_workflow env sub disk))) (temp_file_path_of env) = None)"
proof (intro conjI impI)
  show "files (stored_fs env sub disk) (temp_file_path_of env) = Some (rfil_contents sub)"
    by (rule stored_fs_file)
next
  assume pr: "process_pdf_end_to_end env (temp_file_path_of env) ''bul+eng'' True
       (stored_fs env sub disk) = (Inl e, f)"
  show "fst (process_rfil_workflow env sub disk) =
       (if is_PdfReadError e
        then JSONResponse 400 (ErrorContent ''The file is not a valid PDF'')
        else JSONResponse 500 (ErrorContent (''An error occurred: '' @ str_exn e)))"
    by (rule valid_extraction_raises(1)[OF assms pr])
  show f: "fs (snd (process_rfil_workflow env sub disk)) = f"
    by (rule valid_extraction_raises(2)[OF assms pr])
  show "files (fs (snd (process_rfil_workflow env sub disk))) (temp_file_path_of env) =
       files f (temp_file_path_of env)"
    by (simp only: f)
next
  assume a: "process_pdf_end_to_end env (temp_file_path_of env) ''bul+eng'' True
       (stored_fs env sub disk) = (Inr res, f) \<and>
     os_remove (os_fault env) (temp_file_path_of env) f = Inr f'"
  then have pr: "process_pdf_end_to_end env (temp_file_path_of env) ''bul+eng'' True
       (stored_fs env sub disk) = (Inr res, f)"
    and rm: "os_remove (os_fault env) (temp_file_path_of env) f = Inr f'" by simp_all
  show f': "fs (snd (process_rfil_workflow env sub disk)) = f'"
    by (rule valid_removed[OF assms pr rm])
  show "files (fs (snd (process_rfil_workflow env sub disk))) (temp_file_path_of env) = None"
    unfolding f' by (rule os_remove_returns[OF rm])
qed

theorem temp_file_left_when_extraction_raises_witness:
  "fst (process_rfil_workflow (example_env_with failing_extraction)
      \<lparr>rfil_filename = ''scan.pdf'', rfil_contents = [37, 80, 68, 70], form_items = []\<rparr>
      example_fs) =
     JSONResponse 500 (ErrorContent
       ''An error occurred: tesseract is not installed or it is not in your PATH'') \<and>
   files (fs (snd (process_rfil_workflow (example_env_with failing_extraction)
      \<lparr>rfil_filename = ''scan.pdf'', rfil_contents = [37, 80, 68, 70], form_items = []\<rparr>
      example_fs))) ''/app/temp_files/9f1c.pdf'' = Some [37, 80, 68, 70] \<and>
   files example_fs ''/app/temp_files/9f1c.pdf'' = None \<and>
   files (fs (snd (process_rfil_workflow (example_env_with reporting_extraction)
      \<lparr>rfil_filename = ''scan.pdf'', rfil_contents = [37, 80, 68, 70], form_items = []\<rparr>
      example_fs))) ''/app/temp_files/9f1c.pdf'' = None"
proof -
  have ad: "collect_additional_data (json_loads (example_env_with failing_extraction))
      (form_items \<lparr>rfil_filename = ''scan.pdf'', rfil_contents = [37, 80, 68, 70],
                   form_items = []\<rparr>) [] = Inr []"
    by simp
  note inst = temp_file_left_when_extraction_raises[OF ad example_gate example_no_store_fault,
      where disk = example_fs
      and e = "OtherException ''tesseract is not installed or it is not in your PATH''"
      and f = "\<lparr>files = [''/app/temp_files/9f1c.pdf'' \<mapsto> [37, 80, 68, 70]],
                 dirs = {''/app/temp_files'', ''/app''}\<rparr>"]
  have none: "files example_fs ''/app/temp_files/9f1c.pdf'' = None"
    by (simp add: example_fs_def)
  have ad': "collect_additional_data (json_loads (example_env_with reporting_extraction))
      (form_items \<lparr>rfil_filename = ''scan.pdf'', rfil_contents = [37, 80, 68, 70],
                   form_items = []\<rparr>) [] = Inr []"
    by simp
  have removed: "files (fs (snd (process_rfil_workflow (example_env_with reporting_extraction)
      \<lparr>rfil_filename = ''scan.pdf'', rfil_contents = [37, 80, 68, 70], form_items = []\<rparr>
      example_fs))) ''/app/temp_files/9f1c.pdf'' = None"
    using temp_file_left_when_extraction_raises[OF ad' example_gate example_no_store_fault,
      where disk = example_fs
      and res = "(''/app/temp_files/9f1c.pdf'', ''bul+eng'', True)"
      and f = "\<lparr>files = [''/app/temp_files/9f1c.pdf'' \<mapsto> [37, 80, 68, 70]],
                 dirs = {''/app/temp_files'', ''/app''}\<rparr>"
      and f' = "\<lparr>files = Map.empty, dirs = {''/app/temp_files'', ''/app''}\<rparr>"]
    by (simp add: example_env_with_simps example_paths example_stored_fs example_remove
          reporting_extraction_def)
  have left: "fst (process_rfil_workflow (example_env_with failing_extraction)
      \<lparr>rfil_filename = ''scan.pdf'', rfil_contents = [37, 80, 68, 70], form_items = []\<rparr>
      example_fs) =
     JSONResponse 500 (ErrorContent
       ''An error occurred: tesseract is not installed or it is not in your PATH'') \<and>
   files (fs (snd (process_rfil_workflow (example_env_with failing_extraction)
      \<lparr>rfil_filename = ''scan.pdf'', rfil_contents = [37, 80, 68, 70], form_items = []\<rparr>
      example_fs))) ''/app/temp_files/9f1c.pdf'' = Some [37, 80, 68, 70]"
    using inst
    by (simp add: example_env_with_simps example_paths example_stored_fs failing_extraction_def)
  from left none removed show ?thesis by blast
qed

text \<open>
  C8, as the code has it. \<open>os.remove\<close> of line 191 runs inside the \<open>try\<close> of line 123:
  when it fails after the extraction has returned, the request is answered with the
  server error 500 and the text of the exception, not with the success response; the
  failure is logged as an error, with its traceback, and the file system is left as the
  extraction left it.
\<close>

theorem failed_removal_is_server_error:
  assumes "collect_additional_data (json_loads env) (form_items sub) [] = Inr ad"
    and "validation_gate env sub" and "no_store_fault env"
    and "process_pdf_end_to_end env (temp_file_path_of env) ''bul+eng'' True
           (stored_fs env sub disk) = (Inr res, f)"
    and "os_remove (os_fault env) (temp_file_path_of env) f = Inl e"
  shows "fst (process_rfil_workflow env sub disk) =
           JSONResponse 500 (ErrorContent (''An error occurred: '' @ str_exn e)) \<and>
         status_code (fst (process_rfil_workflow env sub disk)) = 500 \<and>
         take 2 (rev (log (snd (process_rfil_workflow env sub disk)))) =
           [LogTraceback e, LogError (''Error during RFIL processing: '' @ str_exn e)] \<and>
         fs (snd (process_rfil_workflow env sub disk)) = f"
proof -
  from assms(2) obtain rd where rd: "PdfReader env (rfil_contents sub) = Inr rd"
    by (rule validation_gateD)
  show ?thesis
    by (simp add: valid_removal_fails[OF assms(1-3) rd assms(4,5)])
qed

lemma removal_denied_simps:
  "temp_file_path_of removal_denied_env = ''/app/temp_files/9f1c.pdf''"
  "no_store_fault removal_denied_env"
  "validation_gate removal_denied_env
     \<lparr>rfil_filename = ''scan.pdf'', rfil_contents = [37, 80, 68, 70], form_items = items\<rparr>"
  "stored_fs removal_denied_env
     \<lparr>rfil_filename = n, rfil_contents = bs, form_items = items\<rparr> example_fs =
   \<lparr>files = [''/app/temp_files/9f1c.pdf'' \<mapsto> bs], dirs = {''/app/temp_files'', ''/app''}\<rparr>"
  "json_loads removal_denied_env = example_loads"
  "elapsed removal_denied_env = ''0.42''"
  "process_pdf_end_to_end removal_denied_env = reporting_extraction"
  "os_remove (os_fault removal_denied_env) ''/app/temp_files/9f1c.pdf'' f =
     Inl (OtherException ''[Errno 13] Permission denied'')"
  by (simp_all add: removal_denied_env_def temp_file_path_of_def temp_dir_of_def path_join_def
        no_store_fault_def validation_gate_def stored_fs_def example_env_with_simps
        example_names example_reader_simps example_fs_def os_remove_def)

lemma removal_denied_run:
  "process_rfil_workflow removal_denied_env
     \<lparr>rfil_filename = ''scan.pdf'', rfil_contents = [37, 80, 68, 70], form_items = []\<rparr>
     example_fs =
   (JSONResponse 500 (ErrorContent ''An error occurred: [Errno 13] Permission denied''),
    \<lparr>fs = \<lparr>files = [''/app/temp_files/9f1c.pdf'' \<mapsto> [37, 80, 68, 70]],
            dirs = {''/app/temp_files'', ''/app''}\<rparr>,
     log = [LogInfo ''RFIL workflow endpoint called'',
            LogInfo ''PDF validated successfully: scan.pdf, 3 pages'',
            LogInfo ''PDF saved to temporary file: /app/temp_files/9f1c.pdf'',
            LogInfo ''Starting PDF processing with PyMuPDF and Tesseract'',
            LogInfo ''Processing completed in 0.42 seconds'',
            LogError ''Error during RFIL processing: [Errno 13] Permission denied'',
            LogTraceback (OtherException ''[Errno 13] Permission denied'')]\<rparr>)"
proof -
  let ?sub = "\<lparr>rfil_filename = ''scan.pdf'', rfil_contents = [37, 80, 68, 70],
                form_items = []\<rparr>"
  let ?rd = "Reader [PdfPage (Inr ''Invoice 2024''), PdfPage (Inr []), PdfPage (Inr ''Total: 12'')]"
  let ?f = "\<lparr>files = [''/app/temp_files/9f1c.pdf'' \<mapsto> [37, 80, 68, 70]],
            dirs = {''/app/temp_files'', ''/app''}\<rparr>"
  have ad: "collect_additional_data (json_loads removal_denied_env) (form_items ?sub) [] = Inr []"
    by simp
  have rd: "PdfReader removal_denied_env (rfil_contents ?sub) = Inr ?rd"
    by (simp add: removal_denied_env_def example_env_with_simps example_reader_simps)
  have pr: "process_pdf_end_to_end removal_denied_env (temp_file_path_of removal_denied_env)
      ''bul+eng'' True (stored_fs removal_denied_env ?sub example_fs) =
      (Inr (''/app/temp_files/9f1c.pdf'', ''bul+eng'', True), ?f)"
    by (simp add: removal_denied_simps reporting_extraction_def)
  have rm: "os_remove (os_fault removal_denied_env) (temp_file_path_of removal_denied_env) ?f =
      Inl (OtherException ''[Errno 13] Permission denied'')"
    by (simp add: removal_denied_simps)
  show ?thesis
    unfolding valid_removal_fails[OF ad removal_denied_simps(3) removal_denied_simps(2) rd pr rm]
    by (simp add: removal_denied_simps str_nat_3)
qed

theorem failed_removal_is_server_error_witness:
  "fst (process_rfil_workflow removal_denied_env
     \<lparr>rfil_filename = ''scan.pdf'', rfil_contents = [37, 80, 68, 70], form_items = []\<rparr>
     example_fs) =
     JSONResponse 500 (ErrorContent ''An error occurred: [Errno 13] Permission denied'') \<and>
   take 2 (rev (log (snd (process_rfil_workflow removal_denied_env
     \<lparr>rfil_filename = ''scan.pdf'', rfil_contents = [37, 80, 68, 70], form_items = []\<rparr>
     example_fs)))) =
     [LogTraceback (OtherException ''[Errno 13] Permission denied''),
      LogError ''Error during RFIL processing: [Errno 13] Permission denied''] \<and>
   files (fs (snd (process_rfil_workflow removal_denied_env
     \<lparr>rfil_filename = ''scan.pdf'', rfil_contents = [37, 80, 68, 70], form_items = []\<rparr>
     example_fs))) ''/app/temp_files/9f1c.pdf'' = Some [37, 80, 68, 70]"
proof -
  have ad: "collect_additional_data (json_loads removal_denied_env)
      (form_items \<lparr>rfil_filename = ''scan.pdf'', rfil_contents = [37, 80, 68, 70],
                   form_items = []\<rparr>) [] = Inr []"
    by simp
  note inst = failed_removal_is_server_error[OF ad removal_denied_simps(3) removal_denied_simps(2),
      where disk = example_fs
      and res = "(''/app/temp_files/9f1c.pdf'', ''bul+eng'', True)"
      and f = "\<lparr>files = [''/app/temp_files/9f1c.pdf'' \<mapsto> [37, 80, 68, 70]],
                 dirs = {''/app/temp_files'', ''/app''}\<rparr>"
      and e = "OtherException ''[Errno 13] Permission denied''"]
  show ?thesis
    using inst by (simp add: removal_denied_simps reporting_extraction_def)
qed

text \<open>
  C8 as stated fails: the extraction has returned its result and \<open>os.remove\<close> is denied;
  the request is answered with status 500 and an error body, not with the success
  response.
\<close>

theorem failed_removal_escalated_counterexample:
  "process_pdf_end_to_end removal_denied_env ''/app/temp_files/9f1c.pdf'' ''bul+eng'' True
     \<lparr>files = [''/app/temp_files/9f1c.pdf'' \<mapsto> [37, 80, 68, 70]],
      dirs = {''/app/temp_files'', ''/app''}\<rparr> =
     (Inr (''/app/temp_files/9f1c.pdf'', ''bul+eng'', True),
      \<lparr>files = [''/app/temp_files/9f1c.pdf'' \<mapsto> [37, 80, 68, 70]],
       dirs = {''/app/temp_files'', ''/app''}\<rparr>) \<and>
   status_code (fst (process_rfil_workflow removal_denied_env
     \<lparr>rfil_filename = ''scan.pdf'', rfil_contents = [37, 80, 68, 70], form_items = []\<rparr>
     example_fs)) = 500 \<and>
   is_error (fst (process_rfil_workflow removal_denied_env
     \<lparr>rfil_filename = ''scan.pdf'', rfil_contents = [37, 80, 68, 70], form_items = []\<rparr>
     example_fs))"
  by (simp add: removal_denied_run removal_denied_simps reporting_extraction_def)

subsection \<open>The form fields\<close>








subsection \<open>The pages of the result\<close>











subsection \<open>The method of each page\<close>






end
